theory Spec2Isabelle
  imports Complex_Main "HOL-Library.Word"
begin

unbundle bit_operations_syntax

section \<open>Memory, errors and loops\<close>

text \<open>
  The filter of \<^verbatim>\<open>ukfLib.c\<close> works on caller-owned float buffers that it reaches through
  matrix descriptors. Several descriptors may name the same buffer (the source wires one
  buffer to several roles on purpose), so the buffers live in an explicit store: a map
  from a buffer's base address to its contents. \<^verbatim>\<open>float\<close> is read as \<open>real\<close>: the
  theorems below are about the exact arithmetic the formulas denote, not about rounding.
  A \<^verbatim>\<open>NULL\<close> pointer is \<open>None\<close>. Every access is checked: what is undefined behaviour
  in C (a \<^verbatim>\<open>NULL\<close> dereference, an index outside the buffer) is an error value here.
\<close>

type_synonym addr = nat

type_synonym 'a mem = "addr \<Rightarrow> 'a list option"

type_synonym fmem = "real mem"

type_synonym bmem = "bool mem"

datatype error =
    NullPointer
  | Dangling addr
  | OutOfBounds addr nat nat
  | FcnIndex nat

definition bindE :: "error + 'a \<Rightarrow> ('a \<Rightarrow> error + 'b) \<Rightarrow> error + 'b" where
  "bindE m f = (case m of Inl e \<Rightarrow> Inl e | Inr v \<Rightarrow> f v)"

text \<open>\<open>rd h p i\<close> is the C expression \<^verbatim>\<open>p[i]\<close> read, \<open>wr h p i v\<close> is \<^verbatim>\<open>p[i] = v\<close>.\<close>

definition rd :: "'a mem \<Rightarrow> addr option \<Rightarrow> nat \<Rightarrow> error + 'a" where
  "rd h p i =
     (case p of
        None \<Rightarrow> Inl NullPointer
      | Some a \<Rightarrow>
          (case h a of
             None \<Rightarrow> Inl (Dangling a)
           | Some xs \<Rightarrow> if i < length xs then Inr (xs ! i) else Inl (OutOfBounds a i (length xs))))"

definition wr :: "'a mem \<Rightarrow> addr option \<Rightarrow> nat \<Rightarrow> 'a \<Rightarrow> error + 'a mem" where
  "wr h p i v =
     (case p of
        None \<Rightarrow> Inl NullPointer
      | Some a \<Rightarrow>
          (case h a of
             None \<Rightarrow> Inl (Dangling a)
           | Some xs \<Rightarrow>
               if i < length xs then Inr (h(a \<mapsto> xs[i := v]))
               else Inl (OutOfBounds a i (length xs))))"

text \<open>Block access, used by the matrix operations: the first \<open>n\<close> entries of a buffer.\<close>

definition load :: "'a mem \<Rightarrow> addr option \<Rightarrow> nat \<Rightarrow> error + 'a list" where
  "load h p n =
     (case p of
        None \<Rightarrow> Inl NullPointer
      | Some a \<Rightarrow>
          (case h a of
             None \<Rightarrow> Inl (Dangling a)
           | Some xs \<Rightarrow> if n \<le> length xs then Inr (take n xs) else Inl (OutOfBounds a n (length xs))))"

definition store :: "'a mem \<Rightarrow> addr option \<Rightarrow> 'a list \<Rightarrow> error + 'a mem" where
  "store h p ys =
     (case p of
        None \<Rightarrow> Inl NullPointer
      | Some a \<Rightarrow>
          (case h a of
             None \<Rightarrow> Inl (Dangling a)
           | Some xs \<Rightarrow>
               if length ys \<le> length xs then Inr (h(a \<mapsto> ys @ drop (length ys) xs))
               else Inl (OutOfBounds a (length ys) (length xs))))"

text \<open>
  A \<^verbatim>\<open>for\<close> loop over an index range that threads the store through its body and stops
  at the first error. The source's counters are \<^verbatim>\<open>uint8_t\<close> and each loop bound is a
  \<^verbatim>\<open>uint8_t\<close> too, so a counter never passes 255 and never wraps: the range
  \<open>[a..<b]\<close> is exactly the sequence of values the counter takes.
\<close>

fun forM :: "nat list \<Rightarrow> (nat \<Rightarrow> 's \<Rightarrow> error + 's) \<Rightarrow> 's \<Rightarrow> error + 's" where
  "forM [] f s = Inr s"
| "forM (i # js) f s = (case f i s of Inl e \<Rightarrow> Inl e | Inr s' \<Rightarrow> forM js f s')"

section \<open>The matrix library\<close>

text \<open>
  Modelled from the spec: \<^verbatim>\<open>mtxLib.h\<close>, which declares \<^verbatim>\<open>tMatrix\<close>, \<^verbatim>\<open>tMatrixBool\<close>,
  \<^verbatim>\<open>mtxResultInfo\<close> and the \<^verbatim>\<open>mtx_*\<close> operations, is not among the sources. The spec
  describes a matrix as a container of floats with fixed row and column counts over
  caller-owned backing storage, and \<^verbatim>\<open>ukfLib.c\<close> uses the fields \<^verbatim>\<open>nrow\<close>, \<^verbatim>\<open>ncol\<close>
  (assigned to \<^verbatim>\<open>uint8_t\<close> without a cast) and \<^verbatim>\<open>val\<close>, with row-major indexing
  \<^verbatim>\<open>val[ncol * row + col]\<close>.
\<close>

record tMatrix =
  nrow :: "8 word"
  ncol :: "8 word"
  val :: "addr option"

record tMatrixBool =
  nrowB :: "8 word"
  ncolB :: "8 word"
  valB :: "addr option"

text \<open>
  Modelled from the spec: each operation reports a status distinguishing success from a
  defined failure; the only status \<^verbatim>\<open>ukfLib.c\<close> names is \<^verbatim>\<open>MTX_OPERATION_OK\<close>.
\<close>

datatype mtxResultInfo = MTX_OPERATION_OK | MTX_OPERATION_FAIL

definition nelem :: "tMatrix \<Rightarrow> nat" where
  "nelem m = unat (nrow m) * unat (ncol m)"

definition same_shape :: "tMatrix \<Rightarrow> tMatrix \<Rightarrow> bool" where
  "same_shape a b \<longleftrightarrow> nrow a = nrow b \<and> ncol a = ncol b"

text \<open>Row-major matrices as flat lists.\<close>

definition mat_identity :: "nat \<Rightarrow> real list" where
  "mat_identity n = concat (map (\<lambda>i. map (\<lambda>j. if i = j then 1 else 0) [0..<n]) [0..<n])"

definition mat_mul :: "nat \<Rightarrow> nat \<Rightarrow> nat \<Rightarrow> real list \<Rightarrow> real list \<Rightarrow> real list" where
  "mat_mul n m p A B =
     concat (map (\<lambda>i. map (\<lambda>j. (\<Sum>k\<leftarrow>[0..<m]. A ! (m * i + k) * B ! (p * k + j))) [0..<p]) [0..<n])"

definition mat_mul_tr :: "nat \<Rightarrow> nat \<Rightarrow> nat \<Rightarrow> real list \<Rightarrow> real list \<Rightarrow> real list" where
  "mat_mul_tr n m p A B =
     concat (map (\<lambda>i. map (\<lambda>j. (\<Sum>k\<leftarrow>[0..<m]. A ! (m * i + k) * B ! (m * j + k))) [0..<p]) [0..<n])"

text \<open>
  Modelled from the spec: copy, zero fill, identity fill, scalar multiply, elementwise add
  and subtract (in place on the first operand), matrix multiply, and matrix multiply with
  the second operand transposed. An operation whose operands do not fit reports the
  failure status and writes nothing.
\<close>

definition mtx_cpy :: "fmem \<Rightarrow> tMatrix \<Rightarrow> tMatrix \<Rightarrow> error + (mtxResultInfo \<times> fmem)" where
  "mtx_cpy h dst src =
     (if same_shape dst src then
        bindE (load h (val src) (nelem src)) (\<lambda>xs.
        bindE (store h (val dst) xs) (\<lambda>h'.
        Inr (MTX_OPERATION_OK, h')))
      else Inr (MTX_OPERATION_FAIL, h))"

definition mtx_zeros :: "fmem \<Rightarrow> tMatrix \<Rightarrow> error + (mtxResultInfo \<times> fmem)" where
  "mtx_zeros h m =
     bindE (store h (val m) (replicate (nelem m) 0)) (\<lambda>h'. Inr (MTX_OPERATION_OK, h'))"

definition mtx_identity :: "fmem \<Rightarrow> tMatrix \<Rightarrow> error + (mtxResultInfo \<times> fmem)" where
  "mtx_identity h m =
     (if nrow m = ncol m then
        bindE (store h (val m) (mat_identity (unat (nrow m)))) (\<lambda>h'. Inr (MTX_OPERATION_OK, h'))
      else Inr (MTX_OPERATION_FAIL, h))"

definition mtx_mul_scalar :: "fmem \<Rightarrow> tMatrix \<Rightarrow> real \<Rightarrow> error + (mtxResultInfo \<times> fmem)" where
  "mtx_mul_scalar h m c =
     bindE (load h (val m) (nelem m)) (\<lambda>xs.
     bindE (store h (val m) (map (\<lambda>v. v * c) xs)) (\<lambda>h'.
     Inr (MTX_OPERATION_OK, h')))"

definition mtx_add :: "fmem \<Rightarrow> tMatrix \<Rightarrow> tMatrix \<Rightarrow> error + (mtxResultInfo \<times> fmem)" where
  "mtx_add h dst src =
     (if same_shape dst src then
        bindE (load h (val dst) (nelem dst)) (\<lambda>xs.
        bindE (load h (val src) (nelem src)) (\<lambda>ys.
        bindE (store h (val dst) (map2 (+) xs ys)) (\<lambda>h'.
        Inr (MTX_OPERATION_OK, h'))))
      else Inr (MTX_OPERATION_FAIL, h))"

definition mtx_sub :: "fmem \<Rightarrow> tMatrix \<Rightarrow> tMatrix \<Rightarrow> error + (mtxResultInfo \<times> fmem)" where
  "mtx_sub h dst src =
     (if same_shape dst src then
        bindE (load h (val dst) (nelem dst)) (\<lambda>xs.
        bindE (load h (val src) (nelem src)) (\<lambda>ys.
        bindE (store h (val dst) (map2 (-) xs ys)) (\<lambda>h'.
        Inr (MTX_OPERATION_OK, h'))))
      else Inr (MTX_OPERATION_FAIL, h))"

definition mtx_mul :: "fmem \<Rightarrow> tMatrix \<Rightarrow> tMatrix \<Rightarrow> tMatrix \<Rightarrow> error + (mtxResultInfo \<times> fmem)" where
  "mtx_mul h src1 src2 dst =
     (if ncol src1 = nrow src2 \<and> nrow dst = nrow src1 \<and> ncol dst = ncol src2 then
        bindE (load h (val src1) (nelem src1)) (\<lambda>xs.
        bindE (load h (val src2) (nelem src2)) (\<lambda>ys.
        bindE (store h (val dst)
                 (mat_mul (unat (nrow src1)) (unat (ncol src1)) (unat (ncol src2)) xs ys)) (\<lambda>h'.
        Inr (MTX_OPERATION_OK, h'))))
      else Inr (MTX_OPERATION_FAIL, h))"

definition mtx_mul_src2tr :: "fmem \<Rightarrow> tMatrix \<Rightarrow> tMatrix \<Rightarrow> tMatrix \<Rightarrow> error + (mtxResultInfo \<times> fmem)" where
  "mtx_mul_src2tr h src1 src2 dst =
     (if ncol src1 = ncol src2 \<and> nrow dst = nrow src1 \<and> ncol dst = nrow src2 then
        bindE (load h (val src1) (nelem src1)) (\<lambda>xs.
        bindE (load h (val src2) (nelem src2)) (\<lambda>ys.
        bindE (store h (val dst)
                 (mat_mul_tr (unat (nrow src1)) (unat (ncol src1)) (unat (nrow src2)) xs ys)) (\<lambda>h'.
        Inr (MTX_OPERATION_OK, h'))))
      else Inr (MTX_OPERATION_FAIL, h))"

text \<open>
  Modelled from the spec: the lower Cholesky factorization (in place) and the in-place
  inversion against a pre-filled identity are external numerical routines whose
  implementation is out of scope. They are parameters of the model: \<open>chol_op n xs\<close> gives
  the status and the new contents of an \<open>n \<times> n\<close> matrix with contents \<open>xs\<close>;
  \<open>inv_op n xs ys\<close> gives the status and the new contents of the inverted matrix and of its
  companion, which holds the identity before the call and the inverse after it.
\<close>

record mtx_ops =
  chol_op :: "nat \<Rightarrow> real list \<Rightarrow> mtxResultInfo \<times> real list"
  inv_op :: "nat \<Rightarrow> real list \<Rightarrow> real list \<Rightarrow> mtxResultInfo \<times> real list \<times> real list"

definition mtx_chol_lower :: "mtx_ops \<Rightarrow> fmem \<Rightarrow> tMatrix \<Rightarrow> error + (mtxResultInfo \<times> fmem)" where
  "mtx_chol_lower ops h m =
     (if nrow m = ncol m then
        bindE (load h (val m) (nelem m)) (\<lambda>xs.
        bindE (store h (val m) (snd (chol_op ops (unat (nrow m)) xs))) (\<lambda>h'.
        Inr (fst (chol_op ops (unat (nrow m)) xs), h')))
      else Inr (MTX_OPERATION_FAIL, h))"

definition mtx_inv :: "mtx_ops \<Rightarrow> fmem \<Rightarrow> tMatrix \<Rightarrow> tMatrix \<Rightarrow> error + (mtxResultInfo \<times> fmem)" where
  "mtx_inv ops h src dst =
     (if nrow src = ncol src \<and> same_shape dst src then
        bindE (load h (val src) (nelem src)) (\<lambda>xs.
        bindE (load h (val dst) (nelem dst)) (\<lambda>ys.
        bindE (store h (val src) (fst (snd (inv_op ops (unat (nrow src)) xs ys)))) (\<lambda>h1.
        bindE (store h1 (val dst) (snd (snd (inv_op ops (unat (nrow src)) xs ys)))) (\<lambda>h2.
        Inr (fst (inv_op ops (unat (nrow src)) xs ys), h2)))))
      else Inr (MTX_OPERATION_FAIL, h))"

section \<open>The filter's data\<close>

text \<open>
  The structs of \<^verbatim>\<open>ukfLib.h\<close>. The one-letter fields \<^verbatim>\<open>u\<close>, \<^verbatim>\<open>y\<close>, \<^verbatim>\<open>K\<close> and \<^verbatim>\<open>x\<close>
  are written \<open>u_k\<close>, \<open>y_k\<close>, \<open>K_k\<close> and \<open>x_k\<close> (the header comments them as
  \<^verbatim>\<open>u(k)\<close>, \<^verbatim>\<open>y(k)\<close>, \<^verbatim>\<open>K(k)\<close>, \<^verbatim>\<open>x(k)\<close>), and the field \<^verbatim>\<open>dT\<close> of
  \<^verbatim>\<open>tUkfMatrix\<close> is \<open>dT_cfg\<close>, since \<^verbatim>\<open>tUKFpar\<close> has a \<^verbatim>\<open>dT\<close> as well.

  A callback receives the three matrix descriptors, the sigma column and, for a
  prediction, the time step; it acts on the float store and may fail like any other
  access. An array of callbacks is a list, a \<^verbatim>\<open>NULL\<close> entry is \<open>None\<close>.
\<close>

type_synonym tPredictFcn = "tMatrix \<Rightarrow> tMatrix \<Rightarrow> tMatrix \<Rightarrow> nat \<Rightarrow> real \<Rightarrow> fmem \<Rightarrow> error + fmem"

type_synonym tObservFcn = "tMatrix \<Rightarrow> tMatrix \<Rightarrow> tMatrix \<Rightarrow> nat \<Rightarrow> fmem \<Rightarrow> error + fmem"

record tUkfMatrix =
  Sc_vector :: tMatrix
  Wm_weight_vector :: tMatrix
  Wc_weight_vector :: tMatrix
  x_system_states :: tMatrix
  x_system_states_ic :: tMatrix
  x_system_states_limits :: tMatrix
  x_system_states_limits_enable :: tMatrixBool
  x_system_states_correction :: tMatrix
  u_system_input :: tMatrix
  u_prev_system_input :: tMatrix
  X_sigma_points :: tMatrix
  Y_sigma_points :: tMatrix
  y_predicted_mean :: tMatrix
  y_meas :: tMatrix
  Pyy_out_covariance :: tMatrix
  Pyy_out_covariance_copy :: tMatrix
  Ryy0_init_out_covariance :: tMatrix
  Pxy_cross_covariance :: tMatrix
  Pxx_error_covariance :: tMatrix
  Pxx0_init_error_covariance :: tMatrix
  Qxx_process_noise_cov :: tMatrix
  K_kalman_gain :: tMatrix
  I_identity_matrix :: tMatrix
  Pxx_covariance_correction :: tMatrix
  fcnPredict :: "tPredictFcn option list"
  fcnObserve :: "tObservFcn option list"
  dT_cfg :: real

record tUKFpar =
  xLen :: "8 word"
  yLen :: "8 word"
  sLen :: "8 word"
  alpha :: real
  betha :: real
  kappa :: real
  lambda :: real
  dT :: real
  Wm :: tMatrix
  Wc :: tMatrix
  Qxx :: tMatrix
  Ryy0 :: tMatrix
  Pxx0 :: tMatrix
  x0 :: tMatrix
  xLim :: tMatrix
  xLimEnbl :: tMatrixBool

record tUKFin =
  u_k :: tMatrix
  y_k :: tMatrix

record tUKFprev =
  u_p :: tMatrix
  x_p :: tMatrix
  X_p :: tMatrix
  Pxx_p :: tMatrix

record tUKFpredict =
  X_m :: tMatrix
  x_m :: tMatrix
  P_m :: tMatrix
  Y_m :: tMatrix
  y_m :: tMatrix
  pFcnPredict :: "tPredictFcn option list"
  pFcnObserv :: "tObservFcn option list"

record tUKFupdate =
  Pyy :: tMatrix
  Pyy_cpy :: tMatrix
  Pxy :: tMatrix
  K_k :: tMatrix
  x_k :: tMatrix
  x_corr :: tMatrix
  Pxx :: tMatrix
  Pxx_corr :: tMatrix
  Iyy :: tMatrix

record tUKF =
  par :: tUKFpar
  prev :: tUKFprev
  input :: tUKFin
  predict :: tUKFpredict
  update :: tUKFupdate

definition xMinIdx :: nat where "xMinIdx = 0"
definition xMaxIdx :: nat where "xMaxIdx = 1"
definition xEpsIdx :: nat where "xEpsIdx = 2"

definition alphaIdx :: nat where "alphaIdx = 0"
definition bethaIdx :: nat where "bethaIdx = 1"
definition kappaIdx :: nat where "kappaIdx = 2"

section \<open>The state limiter and the dimension check\<close>

definition ukf_state_limiter :: "real \<Rightarrow> real \<Rightarrow> real \<Rightarrow> 8 word \<Rightarrow> real" where
  "ukf_state_limiter state xmin xmax enbl =
     (if 0 \<noteq> enbl then
        (if xmin > state then xmin else if xmax < state then xmax else state)
      else state)"

text \<open>
  \<open>ukf_dimension_check\<close> starts from \<^verbatim>\<open>Result = 0\<close> and runs its checks in the source's
  order; \<open>nok\<close> is the statement \<^verbatim>\<open>Result |= 1\<close> under its condition.
\<close>

definition nok :: "bool \<Rightarrow> 8 word \<Rightarrow> 8 word" where
  "nok c Result = (if c then Result OR 1 else Result)"

definition ukf_dimension_check :: "tUKF \<Rightarrow> 8 word" where
  "ukf_dimension_check pUkf =
     (let stateLen = xLen (par pUkf);
          sigmaLen = sLen (par pUkf);
          Result = 0;
          Result = (if val (u_k (input pUkf)) \<noteq> None \<and> val (u_p (prev pUkf)) \<noteq> None then
                      nok ((nrow (u_k (input pUkf)) \<noteq> stateLen \<or> ncol (u_k (input pUkf)) \<noteq> 1) \<and>
                           (nrow (u_p (prev pUkf)) \<noteq> stateLen \<or> ncol (u_p (prev pUkf)) \<noteq> 1)) Result
                    else Result);
          Result = (if val (y_k (input pUkf)) \<noteq> None then
                      nok (nrow (y_k (input pUkf)) \<noteq> yLen (par pUkf) \<or> ncol (y_k (input pUkf)) \<noteq> 1) Result
                    else nok True Result);
          Result = (if val (Wm (par pUkf)) \<noteq> None \<and> val (Wc (par pUkf)) \<noteq> None then
                      nok ((nrow (Wm (par pUkf)) \<noteq> 1 \<or> ncol (Wm (par pUkf)) \<noteq> sigmaLen) \<and>
                           (nrow (Wc (par pUkf)) \<noteq> 1 \<or> ncol (Wc (par pUkf)) \<noteq> sigmaLen)) Result
                    else nok True Result);
          Result = (if val (Pxx0 (par pUkf)) \<noteq> None then
                      nok (nrow (Pxx0 (par pUkf)) \<noteq> stateLen \<or> ncol (Pxx0 (par pUkf)) \<noteq> stateLen) Result
                    else nok True Result);
          Result = (if val (Qxx (par pUkf)) \<noteq> None then
                      nok (nrow (Qxx (par pUkf)) \<noteq> stateLen \<or> ncol (Qxx (par pUkf)) \<noteq> stateLen) Result
                    else nok True Result);
          Result = (if val (Ryy0 (par pUkf)) \<noteq> None then
                      nok (nrow (Ryy0 (par pUkf)) \<noteq> yLen (par pUkf) \<or> ncol (Ryy0 (par pUkf)) \<noteq> yLen (par pUkf)) Result
                    else nok True Result);
          Result = (if val (X_m (predict pUkf)) \<noteq> None then
                      nok (nrow (X_m (predict pUkf)) \<noteq> stateLen \<or> ncol (X_m (predict pUkf)) \<noteq> sigmaLen) Result
                    else nok True Result);
          Result = (if val (Y_m (predict pUkf)) \<noteq> None then
                      nok (nrow (Y_m (predict pUkf)) \<noteq> yLen (par pUkf) \<or> ncol (Y_m (predict pUkf)) \<noteq> sigmaLen) Result
                    else nok True Result);
          Result = (if val (P_m (predict pUkf)) \<noteq> None then
                      nok (nrow (P_m (predict pUkf)) \<noteq> stateLen \<or> ncol (P_m (predict pUkf)) \<noteq> stateLen) Result
                    else nok True Result);
          Result = (if val (Pyy (update pUkf)) \<noteq> None \<and> val (Pyy_cpy (update pUkf)) \<noteq> None then
                      nok ((nrow (Pyy (update pUkf)) \<noteq> yLen (par pUkf) \<or> ncol (Pyy (update pUkf)) \<noteq> yLen (par pUkf)) \<and>
                           (nrow (Pyy_cpy (update pUkf)) \<noteq> yLen (par pUkf) \<or> ncol (Pyy_cpy (update pUkf)) \<noteq> yLen (par pUkf))) Result
                    else nok True Result);
          Result = (if val (Pxy (update pUkf)) \<noteq> None then
                      nok (nrow (Pxy (update pUkf)) \<noteq> stateLen \<or> ncol (Pxy (update pUkf)) \<noteq> yLen (par pUkf)) Result
                    else nok True Result);
          Result = (if val (Pxx_corr (update pUkf)) \<noteq> None then
                      nok (nrow (Pxx_corr (update pUkf)) \<noteq> stateLen \<or> ncol (Pxx_corr (update pUkf)) \<noteq> stateLen) Result
                    else nok True Result);
          Result = (if val (K_k (update pUkf)) \<noteq> None then
                      nok (nrow (K_k (update pUkf)) \<noteq> stateLen \<or> ncol (K_k (update pUkf)) \<noteq> yLen (par pUkf)) Result
                    else nok True Result)
      in Result)"

section \<open>Initialization\<close>

text \<open>
  The body of the limiter loop of \<open>ukf_init\<close>: a limiter that is enabled although
  \<^verbatim>\<open>xMin + xEps > xMax\<close> is switched off. The enable flags are the only store of
  booleans, the limits are floats.
\<close>

definition limiter_check :: "tMatrix \<Rightarrow> tMatrixBool \<Rightarrow> fmem \<Rightarrow> nat \<Rightarrow> bmem \<Rightarrow> error + bmem" where
  "limiter_check xl_m xe_m h xIdx bh =
     bindE (rd h (val xl_m) (unat (ncol xl_m) * xIdx + xMinIdx)) (\<lambda>xMin.
     bindE (rd h (val xl_m) (unat (ncol xl_m) * xIdx + xMaxIdx)) (\<lambda>xMax.
     bindE (rd h (val xl_m) (unat (ncol xl_m) * xIdx + xEpsIdx)) (\<lambda>xEps.
     bindE (rd bh (valB xe_m) xIdx) (\<lambda>e.
     if e \<and> (xMin + xEps) > xMax then wr bh (valB xe_m) xIdx False else Inr bh))))"

text \<open>The body of the weight loop: \<^verbatim>\<open>Wm.val[col] = w; Wc.val[col] = Wm.val[col]\<close>.\<close>

definition weight_col :: "tMatrix \<Rightarrow> tMatrix \<Rightarrow> real \<Rightarrow> nat \<Rightarrow> fmem \<Rightarrow> error + fmem" where
  "weight_col wm wc w col h =
     bindE (wr h (val wm) col w) (\<lambda>h1.
     bindE (rd h1 (val wm) col) (\<lambda>v.
     wr h1 (val wc) col v))"

definition calc_weights :: "tUKFpar \<Rightarrow> fmem \<Rightarrow> error + fmem" where
  "calc_weights pPar h =
     (let Wm0 = lambda pPar / (real (unat (xLen pPar)) + lambda pPar) in
      bindE (wr h (val (Wm pPar)) 0 Wm0) (\<lambda>h1.
      bindE (wr h1 (val (Wc pPar)) 0 (Wm0 + (1 - alpha pPar * alpha pPar + betha pPar))) (\<lambda>h2.
      forM [1..<unat (ncol (Wm pPar))]
        (weight_col (Wm pPar) (Wc pPar) (1 / (2 * (real (unat (xLen pPar)) + lambda pPar)))) h2)))"

text \<open>
  \<open>ukf_init\<close> assigns every field of the filter struct, so the model builds the struct
  and does not take the old one. It returns the status of the dimension check together
  with the struct and the two stores.
\<close>

definition init_par :: "tUkfMatrix \<Rightarrow> real \<Rightarrow> real \<Rightarrow> real \<Rightarrow> tUKFpar" where
  "init_par pUkfMatrix a b k =
     (let xl = nrow (x_system_states pUkfMatrix) in
      \<lparr> xLen = xl,
        yLen = nrow (y_predicted_mean pUkfMatrix),
        sLen = 2 * xl + 1,
        alpha = a,
        betha = b,
        kappa = k,
        lambda = a * a * (real (unat xl) + k) - real (unat xl),
        dT = dT_cfg pUkfMatrix,
        Wm = Wm_weight_vector pUkfMatrix,
        Wc = Wc_weight_vector pUkfMatrix,
        Qxx = Qxx_process_noise_cov pUkfMatrix,
        Ryy0 = Ryy0_init_out_covariance pUkfMatrix,
        Pxx0 = Pxx0_init_error_covariance pUkfMatrix,
        x0 = x_system_states_ic pUkfMatrix,
        xLim = x_system_states_limits pUkfMatrix,
        xLimEnbl = x_system_states_limits_enable pUkfMatrix \<rparr>)"

definition init_wiring :: "tUkfMatrix \<Rightarrow> tUKFpar \<Rightarrow> tUKF" where
  "init_wiring pUkfMatrix pPar =
     \<lparr> par = pPar,
       prev = \<lparr> u_p = u_system_input pUkfMatrix,
                x_p = x_system_states pUkfMatrix,
                X_p = X_sigma_points pUkfMatrix,
                Pxx_p = Pxx_error_covariance pUkfMatrix \<rparr>,
       input = \<lparr> u_k = u_system_input pUkfMatrix,
                 y_k = y_meas pUkfMatrix \<rparr>,
       predict = \<lparr> X_m = X_sigma_points pUkfMatrix,
                   x_m = x_system_states pUkfMatrix,
                   P_m = Pxx_error_covariance pUkfMatrix,
                   Y_m = Y_sigma_points pUkfMatrix,
                   y_m = y_predicted_mean pUkfMatrix,
                   pFcnPredict = fcnPredict pUkfMatrix,
                   pFcnObserv = fcnObserve pUkfMatrix \<rparr>,
       update = \<lparr> Pyy = Pyy_out_covariance pUkfMatrix,
                  Pyy_cpy = Pyy_out_covariance_copy pUkfMatrix,
                  Pxy = Pxy_cross_covariance pUkfMatrix,
                  K_k = K_kalman_gain pUkfMatrix,
                  x_k = x_system_states pUkfMatrix,
                  x_corr = x_system_states_correction pUkfMatrix,
                  Pxx = Pxx_error_covariance pUkfMatrix,
                  Pxx_corr = Pxx_covariance_correction pUkfMatrix,
                  Iyy = I_identity_matrix pUkfMatrix \<rparr> \<rparr>"

definition ukf_init :: "tUkfMatrix \<Rightarrow> bmem \<Rightarrow> fmem \<Rightarrow> error + (8 word \<times> tUKF \<times> bmem \<times> fmem)" where
  "ukf_init pUkfMatrix bh h =
     (let WmLen = ncol (Wm_weight_vector pUkfMatrix);
          WcLen = ncol (Wc_weight_vector pUkfMatrix)
      in
      bindE (rd h (val (Sc_vector pUkfMatrix)) alphaIdx) (\<lambda>a.
      bindE (rd h (val (Sc_vector pUkfMatrix)) bethaIdx) (\<lambda>b.
      bindE (rd h (val (Sc_vector pUkfMatrix)) kappaIdx) (\<lambda>k.
      let pPar = init_par pUkfMatrix a b k in
      bindE (if valB (xLimEnbl pPar) \<noteq> None \<and> val (xLim pPar) \<noteq> None
             then forM [0..<unat (nrow (xLim pPar))] (limiter_check (xLim pPar) (xLimEnbl pPar) h) bh
             else Inr bh) (\<lambda>bh'.
      bindE (if WmLen = sLen pPar \<and> WcLen = WmLen then calc_weights pPar h else Inr h) (\<lambda>h1.
      let pUkf = init_wiring pUkfMatrix pPar in
      bindE (mtx_cpy h1 (Pxx_p (prev pUkf)) (Pxx0 pPar)) (\<lambda>r1.
      bindE (mtx_cpy (snd r1) (x_p (prev pUkf)) (x0 pPar)) (\<lambda>r2.
      Inr (ukf_dimension_check pUkf, pUkf, bh', snd r2)))))))))"

section \<open>The stages of a step\<close>

text \<open>
  The limiter settings of one state, read the way both loops of \<open>ukf_sigmapoint\<close> read
  them: zero and disabled unless both limiter arrays are configured.
\<close>

definition state_limits :: "tUKF \<Rightarrow> bmem \<Rightarrow> fmem \<Rightarrow> nat \<Rightarrow> error + (real \<times> real \<times> 8 word)" where
  "state_limits pUkf bh h xIdx =
     (if valB (xLimEnbl (par pUkf)) \<noteq> None \<and> val (xLim (par pUkf)) \<noteq> None then
        bindE (rd h (val (xLim (par pUkf))) (unat (ncol (xLim (par pUkf))) * xIdx + xMinIdx)) (\<lambda>xMin.
        bindE (rd h (val (xLim (par pUkf))) (unat (ncol (xLim (par pUkf))) * xIdx + xMaxIdx)) (\<lambda>xMax.
        bindE (rd bh (valB (xLimEnbl (par pUkf))) xIdx) (\<lambda>e.
        Inr (xMin, xMax, of_bool e))))
      else Inr (0, 0, 0))"

definition sigma_first :: "tUKF \<Rightarrow> bmem \<Rightarrow> nat \<Rightarrow> fmem \<Rightarrow> error + fmem" where
  "sigma_first pUkf bh xIdx h =
     bindE (state_limits pUkf bh h xIdx) (\<lambda>(xMin, xMax, xLimEn).
     bindE (rd h (val (x_p (prev pUkf))) xIdx) (\<lambda>v.
     wr h (val (X_p (prev pUkf))) (unat (sLen (par pUkf)) * xIdx + 0)
        (ukf_state_limiter v xMin xMax xLimEn)))"

definition sigma_col :: "tUKF \<Rightarrow> bmem \<Rightarrow> nat \<Rightarrow> nat \<Rightarrow> fmem \<Rightarrow> error + fmem" where
  "sigma_col pUkf bh sigmaIdx xIdx h =
     (let xl = unat (xLen (par pUkf)); sl = unat (sLen (par pUkf)) in
      bindE (state_limits pUkf bh h xIdx) (\<lambda>(xMin, xMax, xLimEn).
      bindE (rd h (val (x_p (prev pUkf))) xIdx) (\<lambda>v.
      if sigmaIdx \<le> xl then
        bindE (rd h (val (Pxx_p (prev pUkf))) (xl * xIdx + (sigmaIdx - 1))) (\<lambda>c.
        wr h (val (X_p (prev pUkf))) (sl * xIdx + sigmaIdx) (ukf_state_limiter (v + c) xMin xMax xLimEn))
      else
        bindE (rd h (val (Pxx_p (prev pUkf))) (xl * xIdx + (sigmaIdx - xl - 1))) (\<lambda>c.
        wr h (val (X_p (prev pUkf))) (sl * xIdx + sigmaIdx) (ukf_state_limiter (v - c) xMin xMax xLimEn)))))"

definition ukf_sigmapoint :: "mtx_ops \<Rightarrow> tUKF \<Rightarrow> bmem \<Rightarrow> fmem \<Rightarrow> error + fmem" where
  "ukf_sigmapoint ops pUkf bh h =
     (let xl = unat (xLen (par pUkf)); sl = unat (sLen (par pUkf)) in
      bindE (mtx_chol_lower ops h (Pxx_p (prev pUkf))) (\<lambda>r.
      if fst r = MTX_OPERATION_OK then
        bindE (forM [0..<xl] (sigma_first pUkf bh) (snd r)) (\<lambda>h1.
        bindE (mtx_mul_scalar h1 (Pxx_p (prev pUkf)) (sqrt (real xl + lambda (par pUkf)))) (\<lambda>r2.
        forM [1..<sl] (\<lambda>sigmaIdx. forM [0..<xl] (sigma_col pUkf bh sigmaIdx)) (snd r2)))
      else Inr (snd r)))"

text \<open>An entry of a callback array; the array itself is taken to be present.\<close>

definition fcn_at :: "'f option list \<Rightarrow> nat \<Rightarrow> error + 'f option" where
  "fcn_at fs i = (if i < length fs then Inr (fs ! i) else Inl (FcnIndex i))"

definition pred_state_col :: "tUKF \<Rightarrow> nat \<Rightarrow> nat \<Rightarrow> fmem \<Rightarrow> error + fmem" where
  "pred_state_col pUkf xIdx sigmaIdx h =
     bindE (fcn_at (pFcnPredict (predict pUkf)) xIdx) (\<lambda>f.
     bindE (case f of
              None \<Rightarrow> Inr h
            | Some g \<Rightarrow> g (u_p (prev pUkf)) (X_p (prev pUkf)) (X_m (predict pUkf)) sigmaIdx (dT (par pUkf)) h) (\<lambda>h1.
     bindE (rd h1 (val (x_m (predict pUkf))) xIdx) (\<lambda>acc.
     bindE (rd h1 (val (Wm (par pUkf))) sigmaIdx) (\<lambda>w.
     bindE (rd h1 (val (X_m (predict pUkf))) (unat (sLen (par pUkf)) * xIdx + sigmaIdx)) (\<lambda>v.
     wr h1 (val (x_m (predict pUkf))) xIdx (acc + w * v))))))"

definition ukf_mean_pred_state :: "tUKF \<Rightarrow> fmem \<Rightarrow> error + fmem" where
  "ukf_mean_pred_state pUkf h =
     forM [0..<unat (xLen (par pUkf))]
       (\<lambda>xIdx h. bindE (wr h (val (x_m (predict pUkf))) xIdx 0)
                   (forM [0..<unat (sLen (par pUkf))] (pred_state_col pUkf xIdx))) h"

definition pred_cov_acc :: "tUKF \<Rightarrow> nat \<Rightarrow> nat \<Rightarrow> nat \<Rightarrow> fmem \<Rightarrow> error + fmem" where
  "pred_cov_acc pUkf sigmaIdx xIdx xTrIdx h =
     (let xl = unat (xLen (par pUkf)); sl = unat (sLen (par pUkf)) in
      bindE (rd h (val (X_m (predict pUkf))) (sl * xIdx + sigmaIdx)) (\<lambda>a1.
      bindE (rd h (val (x_m (predict pUkf))) xIdx) (\<lambda>m1.
      bindE (rd h (val (X_m (predict pUkf))) (sl * xTrIdx + sigmaIdx)) (\<lambda>a2.
      bindE (rd h (val (x_m (predict pUkf))) xTrIdx) (\<lambda>m2.
      bindE (rd h (val (P_m (predict pUkf))) (xl * xIdx + xTrIdx)) (\<lambda>acc.
      bindE (rd h (val (Wc (par pUkf))) sigmaIdx) (\<lambda>w.
      wr h (val (P_m (predict pUkf))) (xl * xIdx + xTrIdx) (acc + w * (a1 - m1) * (a2 - m2)))))))))"

text \<open>
  The observation of one output at one sigma column. Without a callback the source
  writes \<^verbatim>\<open>pY_m[sigmaLen * sigmaIdx + yIdx] = 0\<close>; the mean then reads
  \<^verbatim>\<open>pY_m[sigmaLen * yIdx + sigmaIdx]\<close>.
\<close>

definition observ_col :: "tUKF \<Rightarrow> nat \<Rightarrow> nat \<Rightarrow> fmem \<Rightarrow> error + fmem" where
  "observ_col pUkf sigmaIdx yIdx h =
     (let sl = unat (sLen (par pUkf)) in
      bindE (fcn_at (pFcnObserv (predict pUkf)) yIdx) (\<lambda>f.
      bindE (case f of
               Some g \<Rightarrow> g (u_k (input pUkf)) (X_m (predict pUkf)) (Y_m (predict pUkf)) sigmaIdx h
             | None \<Rightarrow> wr h (val (Y_m (predict pUkf))) (sl * sigmaIdx + yIdx) 0) (\<lambda>h1.
      bindE (rd h1 (val (y_m (predict pUkf))) yIdx) (\<lambda>acc.
      bindE (rd h1 (val (Wm (par pUkf))) sigmaIdx) (\<lambda>w.
      bindE (rd h1 (val (Y_m (predict pUkf))) (sl * yIdx + sigmaIdx)) (\<lambda>v.
      wr h1 (val (y_m (predict pUkf))) yIdx (acc + w * v)))))))"

definition ukf_mean_pred_output :: "tUKF \<Rightarrow> fmem \<Rightarrow> error + fmem" where
  "ukf_mean_pred_output pUkf h =
     (let xl = unat (xLen (par pUkf)); sl = unat (sLen (par pUkf)); yl = unat (yLen (par pUkf)) in
      bindE (mtx_zeros h (y_m (predict pUkf))) (\<lambda>r1.
      bindE (mtx_cpy (snd r1) (P_m (predict pUkf)) (Qxx (par pUkf))) (\<lambda>r2.
      forM [0..<sl]
        (\<lambda>sigmaIdx h.
           bindE (forM [0..<xl] (\<lambda>xIdx. forM [0..<xl] (pred_cov_acc pUkf sigmaIdx xIdx)) h)
             (forM [0..<yl] (observ_col pUkf sigmaIdx)))
        (snd r2))))"

definition out_cov_acc :: "tUKF \<Rightarrow> nat \<Rightarrow> nat \<Rightarrow> nat \<Rightarrow> fmem \<Rightarrow> error + fmem" where
  "out_cov_acc pUkf sigmaIdx yIdx yTrIdx h =
     (let yl = unat (yLen (par pUkf)); sl = unat (sLen (par pUkf)) in
      bindE (rd h (val (Y_m (predict pUkf))) (sl * yIdx + sigmaIdx)) (\<lambda>a1.
      bindE (rd h (val (y_m (predict pUkf))) yIdx) (\<lambda>m1.
      bindE (rd h (val (Y_m (predict pUkf))) (sl * yTrIdx + sigmaIdx)) (\<lambda>a2.
      bindE (rd h (val (y_m (predict pUkf))) yTrIdx) (\<lambda>m2.
      bindE (rd h (val (Pyy (update pUkf))) (yl * yIdx + yTrIdx)) (\<lambda>acc.
      bindE (rd h (val (Wc (par pUkf))) sigmaIdx) (\<lambda>w.
      wr h (val (Pyy (update pUkf))) (yl * yIdx + yTrIdx) (acc + w * (a1 - m1) * (a2 - m2)))))))))"

definition cross_cov_acc :: "tUKF \<Rightarrow> nat \<Rightarrow> nat \<Rightarrow> nat \<Rightarrow> fmem \<Rightarrow> error + fmem" where
  "cross_cov_acc pUkf sigmaIdx xIdx yTrIdx h =
     (let yl = unat (yLen (par pUkf)); sl = unat (sLen (par pUkf)) in
      bindE (rd h (val (X_m (predict pUkf))) (sl * xIdx + sigmaIdx)) (\<lambda>a1.
      bindE (rd h (val (x_m (predict pUkf))) xIdx) (\<lambda>m1.
      bindE (rd h (val (Y_m (predict pUkf))) (sl * yTrIdx + sigmaIdx)) (\<lambda>a2.
      bindE (rd h (val (y_m (predict pUkf))) yTrIdx) (\<lambda>m2.
      bindE (rd h (val (Pxy (update pUkf))) (yl * xIdx + yTrIdx)) (\<lambda>acc.
      bindE (rd h (val (Wc (par pUkf))) sigmaIdx) (\<lambda>w.
      wr h (val (Pxy (update pUkf))) (yl * xIdx + yTrIdx) (acc + w * (a1 - m1) * (a2 - m2)))))))))"

definition ukf_calc_covariances :: "tUKF \<Rightarrow> fmem \<Rightarrow> error + fmem" where
  "ukf_calc_covariances pUkf h =
     (let xl = unat (xLen (par pUkf)); sl = unat (sLen (par pUkf)); yl = unat (yLen (par pUkf)) in
      bindE (mtx_cpy h (Pyy (update pUkf)) (Ryy0 (par pUkf))) (\<lambda>r1.
      bindE (mtx_zeros (snd r1) (Pxy (update pUkf))) (\<lambda>r2.
      forM [0..<sl]
        (\<lambda>sigmaIdx h.
           bindE (forM [0..<yl] (\<lambda>yIdx. forM [0..<yl] (out_cov_acc pUkf sigmaIdx yIdx)) h)
             (forM [0..<xl] (\<lambda>xIdx. forM [0..<yl] (cross_cov_acc pUkf sigmaIdx xIdx))))
        (snd r2))))"

text \<open>The measurement update discards every status, as the \<^verbatim>\<open>(void)\<close> casts do.\<close>

definition ukf_meas_update :: "mtx_ops \<Rightarrow> tUKF \<Rightarrow> fmem \<Rightarrow> error + fmem" where
  "ukf_meas_update ops pUkf h =
     (let pUpdate = update pUkf in
      bindE (mtx_identity h (Iyy pUpdate)) (\<lambda>r1.
      bindE (mtx_cpy (snd r1) (Pyy_cpy pUpdate) (Pyy pUpdate)) (\<lambda>r2.
      bindE (mtx_inv ops (snd r2) (Pyy_cpy pUpdate) (Iyy pUpdate)) (\<lambda>r3.
      bindE (mtx_mul (snd r3) (Pxy pUpdate) (Iyy pUpdate) (K_k pUpdate)) (\<lambda>r4.
      bindE (mtx_sub (snd r4) (y_k (input pUkf)) (y_m (predict pUkf))) (\<lambda>r5.
      bindE (mtx_mul (snd r5) (K_k pUpdate) (y_k (input pUkf)) (x_corr pUpdate)) (\<lambda>r6.
      bindE (mtx_add (snd r6) (x_m (predict pUkf)) (x_corr pUpdate)) (\<lambda>r7.
      bindE (mtx_mul (snd r7) (K_k pUpdate) (Pyy pUpdate) (Pxy pUpdate)) (\<lambda>r8.
      bindE (mtx_mul_src2tr (snd r8) (Pxy pUpdate) (K_k pUpdate) (Pxx_corr pUpdate)) (\<lambda>r9.
      bindE (mtx_sub (snd r9) (P_m (predict pUkf)) (Pxx_corr pUpdate)) (\<lambda>r10.
      Inr (snd r10))))))))))))"

section \<open>The periodic step\<close>

definition store_prev_input :: "tUKF \<Rightarrow> nat \<Rightarrow> fmem \<Rightarrow> error + fmem" where
  "store_prev_input pUkf u8Idx h =
     bindE (rd h (val (u_k (input pUkf))) u8Idx) (\<lambda>v.
     wr h (val (u_p (prev pUkf))) u8Idx v)"

definition ukf_step :: "mtx_ops \<Rightarrow> tUKF \<Rightarrow> bmem \<Rightarrow> fmem \<Rightarrow> error + fmem" where
  "ukf_step ops pUkf bh h =
     bindE (ukf_sigmapoint ops pUkf bh h) (\<lambda>h1.
     bindE (ukf_mean_pred_state pUkf h1) (\<lambda>h2.
     bindE (ukf_mean_pred_output pUkf h2) (\<lambda>h3.
     bindE (ukf_calc_covariances pUkf h3) (\<lambda>h4.
     bindE (ukf_meas_update ops pUkf h4) (\<lambda>h5.
     if val (u_k (input pUkf)) \<noteq> None \<and> val (u_p (prev pUkf)) \<noteq> None then
       forM [0..<unat (nrow (u_p (prev pUkf)))] (store_prev_input pUkf) h5
     else Inr h5)))))"

section \<open>A one-state filter for concrete runs\<close>

text \<open>
  A configuration with one state and \<open>yl\<close> outputs, every matrix in a buffer of its own:
  buffer 0 holds the scaling constants, 1 and 2 the weights, 3 the state, 4 its initial
  value, 5 the limits, 6 the state correction, 7 and 8 the input and the previous input,
  9 and 10 the sigma points of state and output, 11 the predicted output, 12 the
  measurement, 13 to 16 \<open>Pyy\<close>, its copy, \<open>Ryy0\<close> and \<open>Pxy\<close>, 17 to 19 \<open>Pxx\<close>,
  \<open>Pxx0\<close> and \<open>Qxx\<close>, 20 the gain, 21 the identity and 22 the covariance correction.
  For one-by-one matrices the factorization is the square root and the inverse is the
  reciprocal.
\<close>

definition mat :: "8 word \<Rightarrow> 8 word \<Rightarrow> addr \<Rightarrow> tMatrix" where
  "mat r c a = \<lparr> nrow = r, ncol = c, val = Some a \<rparr>"

definition mem_of :: "'a list list \<Rightarrow> 'a mem" where
  "mem_of bufs = (\<lambda>a. if a < length bufs then Some (bufs ! a) else None)"

definition chol1 :: "nat \<Rightarrow> real list \<Rightarrow> mtxResultInfo \<times> real list" where
  "chol1 n xs =
     (case xs of
        [p] \<Rightarrow> if 0 < p then (MTX_OPERATION_OK, [sqrt p]) else (MTX_OPERATION_FAIL, xs)
      | _ \<Rightarrow> (MTX_OPERATION_FAIL, xs))"

definition inv1 :: "nat \<Rightarrow> real list \<Rightarrow> real list \<Rightarrow> mtxResultInfo \<times> real list \<times> real list" where
  "inv1 n xs ys =
     (case xs of
        [p] \<Rightarrow> if p \<noteq> 0 then (MTX_OPERATION_OK, [1], [1 / p]) else (MTX_OPERATION_FAIL, xs, ys)
      | _ \<Rightarrow> (MTX_OPERATION_FAIL, xs, ys))"

definition ops1 :: mtx_ops where
  "ops1 = \<lparr> chol_op = chol1, inv_op = inv1 \<rparr>"

definition cfg1 :: "8 word \<Rightarrow> tPredictFcn option list \<Rightarrow> tObservFcn option list \<Rightarrow> tUkfMatrix" where
  "cfg1 yl fp fo =
     \<lparr> Sc_vector = mat 1 3 0,
       Wm_weight_vector = mat 1 3 1,
       Wc_weight_vector = mat 1 3 2,
       x_system_states = mat 1 1 3,
       x_system_states_ic = mat 1 1 4,
       x_system_states_limits = mat 1 3 5,
       x_system_states_limits_enable = \<lparr> nrowB = 1, ncolB = 1, valB = Some 0 \<rparr>,
       x_system_states_correction = mat 1 1 6,
       u_system_input = mat 1 1 7,
       u_prev_system_input = mat 1 1 8,
       X_sigma_points = mat 1 3 9,
       Y_sigma_points = mat yl 3 10,
       y_predicted_mean = mat yl 1 11,
       y_meas = mat yl 1 12,
       Pyy_out_covariance = mat yl yl 13,
       Pyy_out_covariance_copy = mat yl yl 14,
       Ryy0_init_out_covariance = mat yl yl 15,
       Pxy_cross_covariance = mat 1 yl 16,
       Pxx_error_covariance = mat 1 1 17,
       Pxx0_init_error_covariance = mat 1 1 18,
       Qxx_process_noise_cov = mat 1 1 19,
       K_kalman_gain = mat 1 yl 20,
       I_identity_matrix = mat yl yl 21,
       Pxx_covariance_correction = mat 1 1 22,
       fcnPredict = fp,
       fcnObserve = fo,
       dT_cfg = 1 \<rparr>"

text \<open>The filter struct that \<open>ukf_init\<close> builds from \<open>cfg1\<close> with \<open>alpha = 1\<close>, \<open>beta = 2\<close>, \<open>kappa = 3\<close>.\<close>

definition ukf1 :: "8 word \<Rightarrow> tPredictFcn option list \<Rightarrow> tObservFcn option list \<Rightarrow> tUKF" where
  "ukf1 yl fp fo = init_wiring (cfg1 yl fp fo) (init_par (cfg1 yl fp fo) 1 2 3)"

definition bmem1 :: bmem where
  "bmem1 = mem_of [[True]]"

text \<open>A store for one output: state 5, limits \<open>[0, 6]\<close>, previous covariance \<open>p\<close>.\<close>

definition fmem1 :: "real \<Rightarrow> fmem" where
  "fmem1 p =
     mem_of [[1, 2, 3], [3/4, 1/8, 1/8], [11/4, 1/8, 1/8], [5], [5], [0, 6, 1], [0], [10], [0],
             [7, 8, 9], [0, 0, 0], [0], [4], [0], [0], [1], [0], [p], [4], [4], [0], [0], [0]]"

text \<open>A store for three outputs; the sigma points of the output start as ones.\<close>

definition fmem3 :: fmem where
  "fmem3 =
     mem_of [[1, 2, 3], [3/4, 1/8, 1/8], [11/4, 1/8, 1/8], [5], [5], [0, 6, 1], [0], [10], [0],
             [7, 8, 9], [1, 1, 1, 1, 1, 1, 1, 1, 1], [0, 0, 0], [4, 4, 4],
             [0, 0, 0, 0, 0, 0, 0, 0, 0], [0, 0, 0, 0, 0, 0, 0, 0, 0], [1, 0, 0, 0, 1, 0, 0, 0, 1],
             [0, 0, 0], [4], [4], [4], [0, 0, 0], [0, 0, 0, 0, 0, 0, 0, 0, 0], [0]]"

text \<open>
  Two callbacks: a prediction that sets the state's sigma point to the previous input it is
  given, and an observation that reads the state's sigma point.
\<close>

definition pred_prev_input :: tPredictFcn where
  "pred_prev_input pu_p pX_p pX_m sigmaIdx dt h =
     bindE (rd h (val pu_p) 0) (\<lambda>v. wr h (val pX_m) (unat (ncol pX_m) * 0 + sigmaIdx) v)"

definition obs_state :: tObservFcn where
  "obs_state pu pX_m pY_m sigmaIdx h =
     bindE (rd h (val pX_m) (unat (ncol pX_m) * 0 + sigmaIdx)) (\<lambda>v.
     wr h (val pY_m) (unat (ncol pY_m) * 0 + sigmaIdx) v)"

definition status_of :: "error + (8 word \<times> tUKF \<times> bmem \<times> fmem) \<Rightarrow> error + 8 word" where
  "status_of r = (case r of Inl e \<Rightarrow> Inl e | Inr v \<Rightarrow> Inr (fst v))"

section \<open>Notions used to state the properties\<close>

text \<open>
  \<open>holds h m xs\<close>: the matrix \<open>m\<close> is backed by a buffer of the store \<open>h\<close> that has
  exactly its \<open>nrow * ncol\<close> entries, and these are \<open>xs\<close> (row-major).
\<close>

definition holds :: "fmem \<Rightarrow> tMatrix \<Rightarrow> real list \<Rightarrow> bool" where
  "holds h m xs \<longleftrightarrow>
     (case val m of None \<Rightarrow> False | Some a \<Rightarrow> h a = Some xs \<and> length xs = nelem m)"

definition shape :: "tMatrix \<Rightarrow> 8 word \<Rightarrow> 8 word \<Rightarrow> bool" where
  "shape m r c \<longleftrightarrow> nrow m = r \<and> ncol m = c"

text \<open>
  The gain of the measurement update for \<open>n\<close> states and \<open>m\<close> outputs: \<open>Pxy\<close> times what
  the inversion leaves in the companion matrix when it is given the contents of \<open>Pyy\<close>
  and the identity.
\<close>

definition kalman_gain :: "mtx_ops \<Rightarrow> nat \<Rightarrow> nat \<Rightarrow> real list \<Rightarrow> real list \<Rightarrow> real list" where
  "kalman_gain ops n m pxy pyy =
     mat_mul n m m pxy (snd (snd (inv_op ops m pyy (mat_identity m))))"

text \<open>
  A store for the measurement update of the one-state filter: predicted state 5 with
  covariance 4, predicted output 4 with covariance 2, cross covariance 2, measurement \<open>v\<close>.
\<close>

definition fmem_upd :: "real \<Rightarrow> fmem" where
  "fmem_upd v =
     mem_of [[1, 2, 3], [3/4, 1/8, 1/8], [11/4, 1/8, 1/8], [5], [5], [0, 6, 1], [0], [10], [0],
             [7, 8, 9], [0, 0, 0], [4], [v], [2], [0], [1], [2], [4], [4], [4], [0], [0], [0]]"

text \<open>
  The state of the two weight buffers after the first \<open>k\<close> columns of the weight loop:
  entry 0 of each buffer and the entries from 1 up to \<open>k\<close> set, every other buffer as in
  the store \<open>h\<close> the computation started from.
\<close>

definition weights_set :: "fmem \<Rightarrow> fmem \<Rightarrow> addr \<Rightarrow> addr \<Rightarrow> real \<Rightarrow> real \<Rightarrow> real \<Rightarrow> nat \<Rightarrow> bool" where
  "weights_set h h' aW aC wm0 wc0 wi k \<longleftrightarrow>
     (\<exists>w c. h' aW = Some w \<and> h' aC = Some c
        \<and> length w = length (the (h aW)) \<and> length c = length (the (h aC))
        \<and> w ! 0 = wm0 \<and> c ! 0 = wc0
        \<and> (\<forall>i. 1 \<le> i \<and> i < k \<longrightarrow> w ! i = wi \<and> c ! i = wi)
        \<and> (\<forall>a. a \<noteq> aW \<and> a \<noteq> aC \<longrightarrow> h' a = h a))"

text \<open>
  The limiter arrays are either not configured, or they are buffers in which every access
  of the limiter loop over \<open>n\<close> states is in range.
\<close>

definition limiter_ready :: "tMatrix \<Rightarrow> tMatrixBool \<Rightarrow> bmem \<Rightarrow> fmem \<Rightarrow> nat \<Rightarrow> bool" where
  "limiter_ready xl_m xe_m bh h n \<longleftrightarrow>
     valB xe_m = None \<or> val xl_m = None \<or>
     (case (val xl_m, valB xe_m) of
        (Some aL, Some aE) \<Rightarrow>
          (case (h aL, bh aE) of
             (Some l, Some e) \<Rightarrow> n \<le> length e \<and> (\<forall>i<n. unat (ncol xl_m) * i + xEpsIdx < length l)
           | _ \<Rightarrow> False)
      | _ \<Rightarrow> False)"

text \<open>The store of the one-state filter before \<open>ukf_init\<close>: both weight buffers hold zeros.\<close>

definition fmem_init :: fmem where
  "fmem_init = (fmem1 4)(1 \<mapsto> [0, 0, 0], 2 \<mapsto> [0, 0, 0])"

text \<open>
  A well-shaped configuration with 128 states and one output, without limiter, and its
  store. The weight vectors have one column, the sigma count that \<open>ukf_init\<close> computes.
\<close>

definition cfg128 :: tUkfMatrix where
  "cfg128 =
     \<lparr> Sc_vector = mat 1 3 0,
       Wm_weight_vector = mat 1 1 1,
       Wc_weight_vector = mat 1 1 2,
       x_system_states = mat 128 1 3,
       x_system_states_ic = mat 128 1 4,
       x_system_states_limits = \<lparr> nrow = 0, ncol = 0, val = None \<rparr>,
       x_system_states_limits_enable = \<lparr> nrowB = 0, ncolB = 0, valB = None \<rparr>,
       x_system_states_correction = mat 128 1 6,
       u_system_input = mat 128 1 7,
       u_prev_system_input = mat 128 1 8,
       X_sigma_points = mat 128 1 9,
       Y_sigma_points = mat 1 1 10,
       y_predicted_mean = mat 1 1 11,
       y_meas = mat 1 1 12,
       Pyy_out_covariance = mat 1 1 13,
       Pyy_out_covariance_copy = mat 1 1 14,
       Ryy0_init_out_covariance = mat 1 1 15,
       Pxy_cross_covariance = mat 128 1 16,
       Pxx_error_covariance = mat 128 128 17,
       Pxx0_init_error_covariance = mat 128 128 18,
       Qxx_process_noise_cov = mat 128 128 19,
       K_kalman_gain = mat 128 1 20,
       I_identity_matrix = mat 1 1 21,
       Pxx_covariance_correction = mat 128 128 22,
       fcnPredict = replicate 128 None,
       fcnObserve = [None],
       dT_cfg = 1 \<rparr>"

definition fmem128 :: fmem where
  "fmem128 =
     mem_of [[1, 2, 3], [0], [0], replicate 128 0, replicate 128 0, [], replicate 128 0,
             replicate 128 0, replicate 128 0, replicate 128 0, [0], [0], [0], [0], [0], [1],
             replicate 128 0, replicate 16384 0, replicate 16384 0, replicate 16384 0,
             replicate 128 0, [0], replicate 16384 0]"

text \<open>
  The limiter of state \<open>i\<close> as the store holds it: the state's \<open>min\<close> and \<open>max\<close> applied
  when its enable flag is set, and no clamping when the limiter arrays are not configured.
\<close>

definition limiter_of :: "tUKF \<Rightarrow> bmem \<Rightarrow> fmem \<Rightarrow> nat \<Rightarrow> real \<Rightarrow> real" where
  "limiter_of pUkf bh h i v =
     (case (val (xLim (par pUkf)), valB (xLimEnbl (par pUkf))) of
        (Some aL, Some aE) \<Rightarrow>
          ukf_state_limiter v
            (the (h aL) ! (unat (ncol (xLim (par pUkf))) * i + xMinIdx))
            (the (h aL) ! (unat (ncol (xLim (par pUkf))) * i + xMaxIdx))
            (of_bool (the (bh aE) ! i))
      | _ \<Rightarrow> v)"

text \<open>
  The sigma point of state \<open>i\<close> in column \<open>j\<close>, from the previous mean \<open>x\<close> and the scaled
  factor \<open>S\<close>: the mean in column 0, the mean plus column \<open>j - 1\<close> of \<open>S\<close> in the columns
  \<open>1..xLen\<close>, the mean minus column \<open>j - xLen - 1\<close> in the columns after them, each clamped.
\<close>

definition sigma_value :: "tUKF \<Rightarrow> bmem \<Rightarrow> fmem \<Rightarrow> real list \<Rightarrow> real list \<Rightarrow> nat \<Rightarrow> nat \<Rightarrow> real" where
  "sigma_value pUkf bh h x S i j =
     (let xl = unat (xLen (par pUkf)) in
      if j = 0 then limiter_of pUkf bh h i (x ! i)
      else if j \<le> xl then limiter_of pUkf bh h i (x ! i + S ! (xl * i + (j - 1)))
      else limiter_of pUkf bh h i (x ! i - S ! (xl * i + (j - xl - 1))))"

text \<open>
  The state of the sigma-point loops: relative to the store \<open>h\<close> only the buffer of the
  sigma points and the buffer of the covariance (now \<open>pc\<close>) have changed, and the entries
  marked by \<open>F\<close> hold their values \<open>V\<close>. \<open>sigma_env\<close> collects what the loops need of the
  filter and the store they start from.
\<close>

definition sigma_filled ::
  "fmem \<Rightarrow> fmem \<Rightarrow> addr \<Rightarrow> addr \<Rightarrow> real list \<Rightarrow> nat \<Rightarrow> nat \<Rightarrow> (nat \<Rightarrow> nat \<Rightarrow> real) \<Rightarrow> (nat \<Rightarrow> nat \<Rightarrow> bool) \<Rightarrow> bool" where
  "sigma_filled h s aX aP pc xl sl V F \<longleftrightarrow>
     (\<exists>X. s aX = Some X \<and> length X = length (the (h aX)) \<and> s aP = Some pc
        \<and> (\<forall>a. a \<noteq> aX \<and> a \<noteq> aP \<longrightarrow> s a = h a)
        \<and> (\<forall>i j. i < xl \<and> j < sl \<and> F i j \<longrightarrow> X ! (sl * i + j) = V i j))"

definition sigma_env :: "tUKF \<Rightarrow> bmem \<Rightarrow> fmem \<Rightarrow> addr \<Rightarrow> addr \<Rightarrow> addr \<Rightarrow> real list \<Rightarrow> bool" where
  "sigma_env pUkf bh h aX ax aP x \<longleftrightarrow>
     val (X_p (prev pUkf)) = Some aX \<and> val (x_p (prev pUkf)) = Some ax
     \<and> val (Pxx_p (prev pUkf)) = Some aP
     \<and> h ax = Some x \<and> unat (xLen (par pUkf)) \<le> length x
     \<and> (\<exists>X0. h aX = Some X0 \<and> unat (xLen (par pUkf)) * unat (sLen (par pUkf)) \<le> length X0)
     \<and> limiter_ready (xLim (par pUkf)) (xLimEnbl (par pUkf)) bh h (unat (xLen (par pUkf)))
     \<and> aX \<noteq> ax \<and> aX \<noteq> aP \<and> ax \<noteq> aP
     \<and> val (xLim (par pUkf)) \<noteq> Some aX \<and> val (xLim (par pUkf)) \<noteq> Some aP"

text \<open>
  For the filter with 128 states: a factorization that factors the identity matrix (into
  itself) and refuses every other matrix, the store before \<open>ukf_init\<close> with initial state
  \<open>[5, 7, 0, \<dots>]\<close> and initial covariance the identity, the store \<open>ukf_init\<close> leaves, and
  the filter struct it builds.
\<close>

definition chol_unit :: "nat \<Rightarrow> real list \<Rightarrow> mtxResultInfo \<times> real list" where
  "chol_unit n xs = (if xs = mat_identity n then (MTX_OPERATION_OK, xs) else (MTX_OPERATION_FAIL, xs))"

definition ops128 :: mtx_ops where
  "ops128 = \<lparr> chol_op = chol_unit, inv_op = inv1 \<rparr>"

definition fmem128c :: fmem where
  "fmem128c = fmem128(3 \<mapsto> 5 # 7 # replicate 126 0, 4 \<mapsto> 5 # 7 # replicate 126 0,
                       17 \<mapsto> mat_identity 128, 18 \<mapsto> mat_identity 128)"

definition fmem128i :: fmem where
  "fmem128i = fmem128c(1 \<mapsto> [3 / 131], 2 \<mapsto> [265 / 131])"

definition ukf128 :: tUKF where
  "ukf128 = init_wiring cfg128 (init_par cfg128 1 2 3)"

section \<open>Basic facts\<close>

lemma bindE_Inr [simp]: "bindE (Inr v) f = f v"
  by (simp add: bindE_def)

lemma bindE_Inl [simp]: "bindE (Inl e) f = Inl e"
  by (simp add: bindE_def)

lemma bindE_eq_Inr: "bindE m f = Inr r \<longleftrightarrow> (\<exists>v. m = Inr v \<and> f v = Inr r)"
  by (cases m) simp_all

lemma forM_upt_total:
  assumes "a \<le> b" and "I a s"
    and "\<And>k s. a \<le> k \<Longrightarrow> k < b \<Longrightarrow> I k s \<Longrightarrow> \<exists>s'. f k s = Inr s' \<and> I (Suc k) s'"
  shows "\<exists>s'. forM [a..<b] f s = Inr s' \<and> I b s'"
  using assms
proof (induction "b - a" arbitrary: a s)
  case 0
  then show ?case by simp
next
  case (Suc d)
  then have lt: "a < b" by simp
  from Suc.prems(3) [of a s] Suc.prems(2) lt
  obtain s1 where s1: "f a s = Inr s1" "I (Suc a) s1" by auto
  have "\<exists>s'. forM [Suc a..<b] f s1 = Inr s' \<and> I b s'"
  proof (rule Suc.hyps(1))
    show "d = b - Suc a" using Suc.hyps(2) by simp
    show "Suc a \<le> b" using lt by simp
    show "I (Suc a) s1" by (rule s1(2))
    show "\<exists>s'. f k s = Inr s' \<and> I (Suc k) s'" if "Suc a \<le> k" "k < b" "I k s" for k s
      using Suc.prems(3) [of k s] that by simp
  qed
  then show ?case using lt s1(1) by (simp add: upt_conv_Cons)
qed

lemma rd_ok: "h a = Some xs \<Longrightarrow> i < length xs \<Longrightarrow> rd h (Some a) i = Inr (xs ! i)"
  by (simp add: rd_def)

lemma wr_ok: "h a = Some xs \<Longrightarrow> i < length xs \<Longrightarrow> wr h (Some a) i v = Inr (h(a \<mapsto> xs[i := v]))"
  by (simp add: wr_def)

lemma load_exact: "h a = Some xs \<Longrightarrow> length xs = n \<Longrightarrow> load h (Some a) n = Inr xs"
  by (simp add: load_def)

lemma store_exact: "h a = Some xs \<Longrightarrow> length ys = length xs \<Longrightarrow> store h (Some a) ys = Inr (h(a \<mapsto> ys))"
  by (simp add: store_def)

lemma store_frame: "store h p ys = Inr h' \<Longrightarrow> p \<noteq> Some a \<Longrightarrow> h' a = h a"
  by (auto simp: store_def split: option.splits if_splits)

lemma wr_frame: "wr h p i v = Inr h' \<Longrightarrow> p \<noteq> Some a \<Longrightarrow> h' a = h a"
  by (auto simp: wr_def split: option.splits if_splits)

lemma upt_from_1: "[Suc 0..<n] = (if Suc 0 < n then Suc 0 # [2..<n] else [])"
  by (simp add: upt_conv_Cons numeral_2_eq_2)

lemma upt_from_0: "[0..<numeral n] = 0 # [Suc 0..<numeral n]"
  by (simp add: upt_conv_Cons)

lemma mem_of_apply: "mem_of bufs a = (if a < length bufs then Some (bufs ! a) else None)"
  by (simp add: mem_of_def)

lemma replicate_num: "replicate (numeral n) v = v # replicate (pred_numeral n) v"
  by (simp add: numeral_eq_Suc)

lemmas ex_defs = ukf1_def cfg1_def init_wiring_def init_par_def mat_def ops1_def chol1_def inv1_def
  fmem1_def bmem1_def mem_of_apply upt_from_0 upt_from_1

lemmas mem_defs = rd_def wr_def load_def store_def nelem_def same_shape_def

lemmas init_defs = ukf_init_def calc_weights_def weight_col_def limiter_check_def mtx_cpy_def
  ukf_dimension_check_def nok_def alphaIdx_def bethaIdx_def kappaIdx_def
  xMinIdx_def xMaxIdx_def xEpsIdx_def

lemmas step_defs = ukf_step_def ukf_sigmapoint_def sigma_first_def sigma_col_def state_limits_def
  ukf_state_limiter_def ukf_mean_pred_state_def pred_state_col_def fcn_at_def
  ukf_mean_pred_output_def pred_cov_acc_def observ_col_def ukf_calc_covariances_def
  out_cov_acc_def cross_cov_acc_def ukf_meas_update_def store_prev_input_def
  mtx_chol_lower_def mtx_mul_scalar_def mtx_zeros_def mtx_cpy_def mtx_identity_def mtx_inv_def
  mtx_mul_def mtx_sub_def mtx_add_def mtx_mul_src2tr_def mat_identity_def mat_mul_def mat_mul_tr_def
  xMinIdx_def xMaxIdx_def xEpsIdx_def replicate_num

section \<open>Matrices in the store\<close>

lemma holdsD: "holds h m xs \<Longrightarrow> \<exists>a. val m = Some a \<and> h a = Some xs \<and> length xs = nelem m"
  by (auto simp: holds_def split: option.splits)

lemma holds_upd:
  "holds (h(a \<mapsto> ys)) m xs \<longleftrightarrow>
     (if val m = Some a then xs = ys \<and> length ys = nelem m else holds h m xs)"
  by (auto simp: holds_def split: option.splits)

lemma length_concat_const: "length (concat (map (\<lambda>i. map (f i) [0..<p]) xs)) = length xs * p"
  by (induction xs) simp_all

lemma length_mat_mul [simp]: "length (mat_mul n m p A B) = n * p"
  by (simp add: mat_mul_def length_concat_const)

lemma length_mat_mul_tr [simp]: "length (mat_mul_tr n m p A B) = n * p"
  by (simp add: mat_mul_tr_def length_concat_const)

lemma length_mat_identity [simp]: "length (mat_identity n) = n * n"
  by (simp add: mat_identity_def length_concat_const)

lemma sum_list_all_0: "(\<And>k. k \<in> set xs \<Longrightarrow> f k = (0::real)) \<Longrightarrow> (\<Sum>k\<leftarrow>xs. f k) = 0"
  by (induction xs) simp_all

lemma concat_singletons: "concat (map (\<lambda>i. [c]) xs) = replicate (length xs) c"
  by (induction xs) simp_all

lemma mat_mul_zero_vector: "mat_mul n m (Suc 0) A (replicate m 0) = replicate n 0"
proof -
  have "(\<Sum>k\<leftarrow>[0..<m]. A ! (m * i + k) * replicate m 0 ! k) = 0" for i
    by (rule sum_list_all_0) simp
  then show ?thesis
    by (simp add: mat_mul_def concat_singletons map_replicate_const)
qed

lemma map2_minus_self: "map2 (-) xs xs = replicate (length xs) (0::real)"
  by (induction xs) simp_all

lemma map2_plus_zeros: "map2 (+) xs (replicate (length xs) 0) = (xs::real list)"
  by (induction xs) simp_all

lemma mtx_identity_holds:
  assumes "holds h m xs" "val m = Some a" "nrow m = ncol m"
  shows "mtx_identity h m = Inr (MTX_OPERATION_OK, h(a \<mapsto> mat_identity (unat (nrow m))))"
  using assms by (auto simp: mtx_identity_def holds_def nelem_def store_exact)

lemma mtx_cpy_holds:
  assumes "holds h d xs" "val d = Some a" "holds h s ys" "same_shape d s"
  shows "mtx_cpy h d s = Inr (MTX_OPERATION_OK, h(a \<mapsto> ys))"
proof -
  obtain b where "val s = Some b" "h b = Some ys" "length ys = nelem s"
    using holdsD [OF assms(3)] by blast
  moreover have "h a = Some xs" "length xs = nelem d"
    using assms(1,2) by (auto simp: holds_def)
  ultimately show ?thesis
    using assms(2,4) by (simp add: mtx_cpy_def same_shape_def nelem_def load_exact store_exact)
qed

lemma mtx_cpy_holds_total:
  assumes "holds h d xs" "holds h s ys"
  shows "\<exists>st h'. mtx_cpy h d s = Inr (st, h') \<and> (\<forall>a. val d \<noteq> Some a \<longrightarrow> h' a = h a)
           \<and> (\<forall>m zs. val m \<noteq> val d \<longrightarrow> holds h m zs \<longrightarrow> holds h' m zs)
           \<and> (\<exists>zs. holds h' d zs)"
proof (cases "same_shape d s")
  case True
  obtain a where a: "val d = Some a" using holdsD [OF assms(1)] by blast
  have l: "length ys = nelem d"
    using assms(2) True by (auto simp: holds_def same_shape_def nelem_def split: option.splits)
  show ?thesis
    using mtx_cpy_holds [OF assms(1) a assms(2) True] a l
    by (auto simp: holds_upd)
next
  case False
  then show ?thesis using assms(1) by (auto simp: mtx_cpy_def)
qed

lemma mtx_sub_holds:
  assumes "holds h d xs" "val d = Some a" "holds h s ys" "same_shape d s"
  shows "mtx_sub h d s = Inr (MTX_OPERATION_OK, h(a \<mapsto> map2 (-) xs ys))"
proof -
  obtain b where "val s = Some b" "h b = Some ys" "length ys = nelem s"
    using holdsD [OF assms(3)] by blast
  moreover have "h a = Some xs" "length xs = nelem d"
    using assms(1,2) by (auto simp: holds_def)
  ultimately show ?thesis
    using assms(2,4) by (simp add: mtx_sub_def same_shape_def nelem_def load_exact store_exact)
qed

lemma mtx_add_holds:
  assumes "holds h d xs" "val d = Some a" "holds h s ys" "same_shape d s"
  shows "mtx_add h d s = Inr (MTX_OPERATION_OK, h(a \<mapsto> map2 (+) xs ys))"
proof -
  obtain b where "val s = Some b" "h b = Some ys" "length ys = nelem s"
    using holdsD [OF assms(3)] by blast
  moreover have "h a = Some xs" "length xs = nelem d"
    using assms(1,2) by (auto simp: holds_def)
  ultimately show ?thesis
    using assms(2,4) by (simp add: mtx_add_def same_shape_def nelem_def load_exact store_exact)
qed

lemma mtx_mul_holds:
  assumes "holds h s1 xs" "holds h s2 ys" "holds h d zs" "val d = Some a"
    and "ncol s1 = nrow s2" "nrow d = nrow s1" "ncol d = ncol s2"
  shows "mtx_mul h s1 s2 d =
           Inr (MTX_OPERATION_OK, h(a \<mapsto> mat_mul (unat (nrow s1)) (unat (ncol s1)) (unat (ncol s2)) xs ys))"
proof -
  obtain b where "val s1 = Some b" "h b = Some xs" "length xs = nelem s1"
    using holdsD [OF assms(1)] by blast
  moreover obtain c where "val s2 = Some c" "h c = Some ys" "length ys = nelem s2"
    using holdsD [OF assms(2)] by blast
  moreover have "h a = Some zs" "length zs = nelem d"
    using assms(3,4) by (auto simp: holds_def)
  ultimately show ?thesis
    using assms(4-7) by (simp add: mtx_mul_def nelem_def load_exact store_exact)
qed

lemma mtx_mul_src2tr_holds:
  assumes "holds h s1 xs" "holds h s2 ys" "holds h d zs" "val d = Some a"
    and "ncol s1 = ncol s2" "nrow d = nrow s1" "ncol d = nrow s2"
  shows "mtx_mul_src2tr h s1 s2 d =
           Inr (MTX_OPERATION_OK, h(a \<mapsto> mat_mul_tr (unat (nrow s1)) (unat (ncol s1)) (unat (nrow s2)) xs ys))"
proof -
  obtain b where "val s1 = Some b" "h b = Some xs" "length xs = nelem s1"
    using holdsD [OF assms(1)] by blast
  moreover obtain c where "val s2 = Some c" "h c = Some ys" "length ys = nelem s2"
    using holdsD [OF assms(2)] by blast
  moreover have "h a = Some zs" "length zs = nelem d"
    using assms(3,4) by (auto simp: holds_def)
  ultimately show ?thesis
    using assms(4-7) by (simp add: mtx_mul_src2tr_def nelem_def load_exact store_exact)
qed

lemma mtx_inv_holds:
  assumes "holds h s xs" "val s = Some a" "holds h d ys" "val d = Some b" "a \<noteq> b"
    and "nrow s = ncol s" "same_shape d s"
    and "length (fst (snd (inv_op ops (unat (nrow s)) xs ys))) = nelem s"
    and "length (snd (snd (inv_op ops (unat (nrow s)) xs ys))) = nelem s"
  shows "mtx_inv ops h s d =
           Inr (fst (inv_op ops (unat (nrow s)) xs ys),
                h(a \<mapsto> fst (snd (inv_op ops (unat (nrow s)) xs ys)),
                  b \<mapsto> snd (snd (inv_op ops (unat (nrow s)) xs ys))))"
proof -
  have "h a = Some xs" "length xs = nelem s" "h b = Some ys" "length ys = nelem d"
    using assms(1-4) by (auto simp: holds_def)
  then show ?thesis
    using assms(2,4-9) by (simp add: mtx_inv_def same_shape_def nelem_def load_exact store_exact)
qed

lemma mtx_chol_lower_frame:
  "mtx_chol_lower ops h m = Inr (st, h') \<Longrightarrow> val m \<noteq> Some a \<Longrightarrow> h' a = h a"
  by (auto simp: mtx_chol_lower_def bindE_eq_Inr split: if_splits dest: store_frame)

lemma mtx_chol_lower_run:
  assumes "val m = Some a" "h a = Some xs" "length xs = nelem m" "nrow m = ncol m"
    and "length (snd (chol_op ops (unat (nrow m)) xs)) = nelem m"
  shows "mtx_chol_lower ops h m
           = Inr (fst (chol_op ops (unat (nrow m)) xs), h(a \<mapsto> snd (chol_op ops (unat (nrow m)) xs)))"
  using assms by (simp add: mtx_chol_lower_def load_exact store_exact)

lemma mtx_mul_scalar_run:
  assumes "val m = Some a" "h a = Some xs" "length xs = nelem m"
  shows "mtx_mul_scalar h m c = Inr (MTX_OPERATION_OK, h(a \<mapsto> map (\<lambda>v. v * c) xs))"
  using assms by (simp add: mtx_mul_scalar_def load_exact store_exact)

section \<open>Initialization of the weights\<close>

lemma weight_col_step:
  assumes "weights_set h h1 aW aC wm0 wc0 wi k" and "1 \<le> k"
    and "k < length (the (h aW))" "k < length (the (h aC))" "aW \<noteq> aC"
    and "val wm = Some aW" "val wc = Some aC"
  shows "\<exists>h2. weight_col wm wc wi k h1 = Inr h2 \<and> weights_set h h2 aW aC wm0 wc0 wi (Suc k)"
proof -
  from assms(1) obtain w c where wc: "h1 aW = Some w" "h1 aC = Some c"
    "length w = length (the (h aW))" "length c = length (the (h aC))"
    "w ! 0 = wm0" "c ! 0 = wc0" "\<forall>i. 1 \<le> i \<and> i < k \<longrightarrow> w ! i = wi \<and> c ! i = wi"
    "\<forall>a. a \<noteq> aW \<and> a \<noteq> aC \<longrightarrow> h1 a = h a"
    unfolding weights_set_def by blast
  let ?h2 = "h1(aW \<mapsto> w[k := wi], aC \<mapsto> c[k := wi])"
  have run: "weight_col wm wc wi k h1 = Inr ?h2"
    using wc(1-4) assms(3-7) by (simp add: weight_col_def wr_ok rd_ok)
  have "weights_set h ?h2 aW aC wm0 wc0 wi (Suc k)"
    unfolding weights_set_def
    using wc assms(2-5) by (auto simp: nth_list_update less_Suc_eq)
  with run show ?thesis by blast
qed

lemma calc_weights_total:
  assumes "val (Wm pPar) = Some aW" "val (Wc pPar) = Some aC" "aW \<noteq> aC"
    and "h aW = Some w0" "h aC = Some c0"
    and "unat (ncol (Wm pPar)) \<le> length w0" "unat (ncol (Wm pPar)) \<le> length c0"
    and "1 \<le> unat (ncol (Wm pPar))"
  shows "\<exists>h'. calc_weights pPar h = Inr h'
     \<and> weights_set h h' aW aC
          (lambda pPar / (real (unat (xLen pPar)) + lambda pPar))
          (lambda pPar / (real (unat (xLen pPar)) + lambda pPar) + (1 - alpha pPar * alpha pPar + betha pPar))
          (1 / (2 * (real (unat (xLen pPar)) + lambda pPar)))
          (unat (ncol (Wm pPar)))"
proof -
  let ?wm0 = "lambda pPar / (real (unat (xLen pPar)) + lambda pPar)"
  let ?wc0 = "?wm0 + (1 - alpha pPar * alpha pPar + betha pPar)"
  let ?wi = "1 / (2 * (real (unat (xLen pPar)) + lambda pPar))"
  let ?N = "unat (ncol (Wm pPar))"
  let ?h2 = "h(aW \<mapsto> w0[0 := ?wm0], aC \<mapsto> c0[0 := ?wc0])"
  have pos: "0 < length w0" "0 < length c0" using assms(6-8) by linarith+
  have init: "weights_set h ?h2 aW aC ?wm0 ?wc0 ?wi 1"
    using assms(3-5) pos by (simp add: weights_set_def)
  have "\<exists>h'. forM [1..<?N] (weight_col (Wm pPar) (Wc pPar) ?wi) ?h2 = Inr h'
          \<and> weights_set h h' aW aC ?wm0 ?wc0 ?wi ?N"
  proof (rule forM_upt_total [where I = "\<lambda>k s. weights_set h s aW aC ?wm0 ?wc0 ?wi k"])
    show "1 \<le> ?N" by (rule assms(8))
    show "weights_set h ?h2 aW aC ?wm0 ?wc0 ?wi 1" by (rule init)
    show "\<exists>s'. weight_col (Wm pPar) (Wc pPar) ?wi k s = Inr s' \<and> weights_set h s' aW aC ?wm0 ?wc0 ?wi (Suc k)"
      if "1 \<le> k" "k < ?N" "weights_set h s aW aC ?wm0 ?wc0 ?wi k" for k s
      using weight_col_step [OF that(3) that(1) _ _ assms(3,1,2)] that(2) assms(4-7) by simp
  qed
  then show ?thesis
    using assms(1-5) pos by (simp add: calc_weights_def Let_def wr_ok)
qed

lemma limiter_check_step:
  assumes "val xl_m = Some aL" "valB xe_m = Some aE" "h aL = Some l" "bh aE = Some e"
    and "k < length e" "unat (ncol xl_m) * k + xEpsIdx < length l"
  shows "\<exists>bh' e'. limiter_check xl_m xe_m h k bh = Inr bh' \<and> bh' aE = Some e' \<and> length e' = length e"
  using assms
  by (auto simp: limiter_check_def rd_ok wr_ok xMinIdx_def xMaxIdx_def xEpsIdx_def)

lemma limiter_loop_total:
  assumes "limiter_ready xl_m xe_m bh h n" "valB xe_m \<noteq> None" "val xl_m \<noteq> None"
  shows "\<exists>bh'. forM [0..<n] (limiter_check xl_m xe_m h) bh = Inr bh'"
proof -
  from assms obtain aL aE l e where a: "val xl_m = Some aL" "valB xe_m = Some aE"
    "h aL = Some l" "bh aE = Some e" "n \<le> length e"
    "\<forall>i<n. unat (ncol xl_m) * i + xEpsIdx < length l"
    by (auto simp: limiter_ready_def split: option.splits)
  have "\<exists>bh'. forM [0..<n] (limiter_check xl_m xe_m h) bh = Inr bh'
          \<and> (\<exists>e'. bh' aE = Some e' \<and> length e' = length e)"
  proof (rule forM_upt_total [where I = "\<lambda>k s. \<exists>e'. s aE = Some e' \<and> length e' = length e"])
    show "0 \<le> n" by simp
    show "\<exists>e'. bh aE = Some e' \<and> length e' = length e" using a(4) by simp
    show "\<exists>s'. limiter_check xl_m xe_m h k s = Inr s' \<and> (\<exists>e'. s' aE = Some e' \<and> length e' = length e)"
      if "0 \<le> k" "k < n" "\<exists>e'. s aE = Some e' \<and> length e' = length e" for k s
    proof -
      from that(3) obtain e1 where e1: "s aE = Some e1" "length e1 = length e" by blast
      have "k < length e1" using that(2) a(5) e1(2) by simp
      moreover have "unat (ncol xl_m) * k + xEpsIdx < length l" using a(6) that(2) by simp
      ultimately show ?thesis
        using limiter_check_step [of xl_m aL xe_m aE h l s e1 k] a(1,2,3) e1 by fastforce
    qed
  qed
  then show ?thesis by blast
qed

lemma odd_word_unat_pos: "1 \<le> unat (2 * w + 1 :: 8 word)"
proof -
  have "odd (2 * w + 1 :: 8 word)" by simp
  then have "(2 * w + 1 :: 8 word) \<noteq> 0" by (metis even_zero)
  then show ?thesis by (simp add: unat_gt_0 Suc_le_eq)
qed

lemma ukf_init_weights:
  fixes pUkfMatrix :: tUkfMatrix and sc :: "real list"
  defines "P \<equiv> init_par pUkfMatrix (sc ! alphaIdx) (sc ! bethaIdx) (sc ! kappaIdx)"
  assumes sc: "val (Sc_vector pUkfMatrix) = Some aS" "h aS = Some sc" "3 \<le> length sc"
    and lim: "limiter_ready (x_system_states_limits pUkfMatrix) (x_system_states_limits_enable pUkfMatrix)
                bh h (unat (nrow (x_system_states_limits pUkfMatrix)))"
    and w: "val (Wm_weight_vector pUkfMatrix) = Some aW" "val (Wc_weight_vector pUkfMatrix) = Some aC"
      "h aW = Some w0" "h aC = Some c0"
    and len: "ncol (Wm_weight_vector pUkfMatrix) = 2 * nrow (x_system_states pUkfMatrix) + 1"
      "ncol (Wc_weight_vector pUkfMatrix) = ncol (Wm_weight_vector pUkfMatrix)"
      "unat (ncol (Wm_weight_vector pUkfMatrix)) \<le> length w0"
      "unat (ncol (Wm_weight_vector pUkfMatrix)) \<le> length c0"
    and cp: "holds h (Pxx_error_covariance pUkfMatrix) pxx"
      "holds h (Pxx0_init_error_covariance pUkfMatrix) pxx0"
      "holds h (x_system_states pUkfMatrix) xs"
      "holds h (x_system_states_ic pUkfMatrix) xs0"
    and di: "distinct [Some aW, Some aC, val (Pxx_error_covariance pUkfMatrix),
      val (x_system_states pUkfMatrix), val (Pxx0_init_error_covariance pUkfMatrix),
      val (x_system_states_ic pUkfMatrix)]"
  shows "\<exists>st bh' h' w c. ukf_init pUkfMatrix bh h = Inr (st, init_wiring pUkfMatrix P, bh', h')
      \<and> h' aW = Some w \<and> h' aC = Some c
      \<and> unat (sLen P) \<le> length w \<and> unat (sLen P) \<le> length c
      \<and> w ! 0 = lambda P / (real (unat (xLen P)) + lambda P)
      \<and> c ! 0 = lambda P / (real (unat (xLen P)) + lambda P) + (1 - alpha P * alpha P + betha P)
      \<and> (\<forall>i. 1 \<le> i \<and> i < unat (sLen P) \<longrightarrow>
            w ! i = 1 / (2 * (real (unat (xLen P)) + lambda P)) \<and> c ! i = 1 / (2 * (real (unat (xLen P)) + lambda P)))"
proof -
  let ?wm0 = "lambda P / (real (unat (xLen P)) + lambda P)"
  let ?wc0 = "?wm0 + (1 - alpha P * alpha P + betha P)"
  let ?wi = "1 / (2 * (real (unat (xLen P)) + lambda P))"
  have Pf: "Wm P = Wm_weight_vector pUkfMatrix" "Wc P = Wc_weight_vector pUkfMatrix"
    "sLen P = 2 * nrow (x_system_states pUkfMatrix) + 1"
    "xLim P = x_system_states_limits pUkfMatrix" "xLimEnbl P = x_system_states_limits_enable pUkfMatrix"
    "Pxx0 P = Pxx0_init_error_covariance pUkfMatrix" "x0 P = x_system_states_ic pUkfMatrix"
    by (simp_all add: P_def init_par_def Let_def)
  have Wf: "Pxx_p (prev (init_wiring pUkfMatrix P)) = Pxx_error_covariance pUkfMatrix"
    "x_p (prev (init_wiring pUkfMatrix P)) = x_system_states pUkfMatrix"
    by (simp_all add: init_wiring_def)
  have rds: "rd h (val (Sc_vector pUkfMatrix)) alphaIdx = Inr (sc ! alphaIdx)"
    "rd h (val (Sc_vector pUkfMatrix)) bethaIdx = Inr (sc ! bethaIdx)"
    "rd h (val (Sc_vector pUkfMatrix)) kappaIdx = Inr (sc ! kappaIdx)"
    using sc by (auto simp: rd_def alphaIdx_def bethaIdx_def kappaIdx_def)
  obtain bh' where lm: "(if valB (xLimEnbl P) \<noteq> None \<and> val (xLim P) \<noteq> None
             then forM [0..<unat (nrow (xLim P))] (limiter_check (xLim P) (xLimEnbl P) h) bh
             else Inr bh) = Inr bh'"
    using limiter_loop_total [OF lim] by (cases "valB (xLimEnbl P) \<noteq> None \<and> val (xLim P) \<noteq> None")
      (auto simp: Pf)
  have N1: "1 \<le> unat (ncol (Wm P))"
    using odd_word_unat_pos [of "nrow (x_system_states pUkfMatrix)"] by (simp add: Pf len)
  have ne: "aW \<noteq> aC" using di by simp
  obtain h1 where h1: "calc_weights P h = Inr h1"
    and ws: "weights_set h h1 aW aC ?wm0 ?wc0 ?wi (unat (ncol (Wm P)))"
    using calc_weights_total [of P aW aC h w0 c0] w len N1 ne by (auto simp: Pf)
  from ws obtain w1 c1 where wc: "h1 aW = Some w1" "h1 aC = Some c1"
    "length w1 = length w0" "length c1 = length c0" "w1 ! 0 = ?wm0" "c1 ! 0 = ?wc0"
    "\<forall>i. 1 \<le> i \<and> i < unat (ncol (Wm P)) \<longrightarrow> w1 ! i = ?wi \<and> c1 ! i = ?wi"
    and fr: "\<forall>a. a \<noteq> aW \<and> a \<noteq> aC \<longrightarrow> h1 a = h a"
    unfolding weights_set_def using w(3,4) by auto
  have keep: "holds h1 m zs" if "holds h m zs" "val m \<noteq> Some aW" "val m \<noteq> Some aC" for m zs
    using that fr by (auto simp: holds_def split: option.splits)
  have k1: "holds h1 (Pxx_error_covariance pUkfMatrix) pxx" "holds h1 (Pxx0_init_error_covariance pUkfMatrix) pxx0"
    "holds h1 (x_system_states pUkfMatrix) xs" "holds h1 (x_system_states_ic pUkfMatrix) xs0"
    using cp di by (auto intro!: keep)
  obtain st2 h2 where c2: "mtx_cpy h1 (Pxx_error_covariance pUkfMatrix) (Pxx0_init_error_covariance pUkfMatrix) = Inr (st2, h2)"
    and f2: "\<forall>a. val (Pxx_error_covariance pUkfMatrix) \<noteq> Some a \<longrightarrow> h2 a = h1 a"
    and p2: "\<forall>m zs. val m \<noteq> val (Pxx_error_covariance pUkfMatrix) \<longrightarrow> holds h1 m zs \<longrightarrow> holds h2 m zs"
    using mtx_cpy_holds_total [OF k1(1,2)] by blast
  have k2: "holds h2 (x_system_states pUkfMatrix) xs" "holds h2 (x_system_states_ic pUkfMatrix) xs0"
    using p2 k1(3,4) di by auto
  obtain st3 h3 where c3: "mtx_cpy h2 (x_system_states pUkfMatrix) (x_system_states_ic pUkfMatrix) = Inr (st3, h3)"
    and f3: "\<forall>a. val (x_system_states pUkfMatrix) \<noteq> Some a \<longrightarrow> h3 a = h2 a"
    using mtx_cpy_holds_total [OF k2] by blast
  have fin: "h3 aW = Some w1" "h3 aC = Some c1"
    using f2 f3 wc(1,2) di by auto
  have cond: "ncol (Wm_weight_vector pUkfMatrix) = sLen P
      \<and> ncol (Wc_weight_vector pUkfMatrix) = ncol (Wm_weight_vector pUkfMatrix)"
    using len by (simp add: Pf)
  have run: "ukf_init pUkfMatrix bh h
      = Inr (ukf_dimension_check (init_wiring pUkfMatrix P), init_wiring pUkfMatrix P, bh', h3)"
    unfolding ukf_init_def Let_def
    by (simp only: rds bindE_Inr P_def [symmetric] lm cond [THEN eqTrueI] if_True h1 Wf
        Pf(6,7) c2 c3 snd_conv)
  have sl: "unat (ncol (Wm P)) = unat (sLen P)" using len by (simp add: Pf)
  show ?thesis
    using run fin wc(3-7) len(3,4) sl by (auto simp: Pf)
qed

text \<open>
  C3. Let \<open>ukf_init\<close> be given scaling constants, weight vectors whose column counts both
  equal the sigma count \<open>2 * xLen + 1\<close> (as the \<^verbatim>\<open>uint8_t\<close> the source computes) in
  buffers that hold as many entries, limiter arrays that are absent or in range, and the
  state and covariance matrices with their initial values, the written buffers all
  different. Then it returns, and in the store it leaves \<open>Wm[0] = lambda / (xLen + lambda)\<close>,
  \<open>Wc[0] = Wm[0] + (1 - alpha\<^sup>2 + beta)\<close> and \<open>Wm[i] = Wc[i] = 1 / (2 * (xLen + lambda))\<close>
  for every \<open>i\<close> from 1 below the sigma count, with
  \<open>lambda = alpha\<^sup>2 * (xLen + kappa) - xLen\<close>.
\<close>

theorem ukf_init_sets_weights:
  fixes pUkfMatrix :: tUkfMatrix and sc :: "real list"
  assumes sc: "val (Sc_vector pUkfMatrix) = Some aS" "h aS = Some sc" "3 \<le> length sc"
    and lim: "limiter_ready (x_system_states_limits pUkfMatrix) (x_system_states_limits_enable pUkfMatrix)
                bh h (unat (nrow (x_system_states_limits pUkfMatrix)))"
    and w: "val (Wm_weight_vector pUkfMatrix) = Some aW" "val (Wc_weight_vector pUkfMatrix) = Some aC"
      "h aW = Some w0" "h aC = Some c0"
    and len: "ncol (Wm_weight_vector pUkfMatrix) = 2 * nrow (x_system_states pUkfMatrix) + 1"
      "ncol (Wc_weight_vector pUkfMatrix) = ncol (Wm_weight_vector pUkfMatrix)"
      "unat (ncol (Wm_weight_vector pUkfMatrix)) \<le> length w0"
      "unat (ncol (Wm_weight_vector pUkfMatrix)) \<le> length c0"
    and cp: "holds h (Pxx_error_covariance pUkfMatrix) pxx"
      "holds h (Pxx0_init_error_covariance pUkfMatrix) pxx0"
      "holds h (x_system_states pUkfMatrix) xs"
      "holds h (x_system_states_ic pUkfMatrix) xs0"
    and di: "distinct [Some aW, Some aC, val (Pxx_error_covariance pUkfMatrix),
      val (x_system_states pUkfMatrix), val (Pxx0_init_error_covariance pUkfMatrix),
      val (x_system_states_ic pUkfMatrix)]"
  shows "\<exists>st pUkf bh' h' w c. ukf_init pUkfMatrix bh h = Inr (st, pUkf, bh', h')
      \<and> h' aW = Some w \<and> h' aC = Some c
      \<and> alpha (par pUkf) = sc ! alphaIdx \<and> betha (par pUkf) = sc ! bethaIdx
      \<and> kappa (par pUkf) = sc ! kappaIdx
      \<and> xLen (par pUkf) = nrow (x_system_states pUkfMatrix)
      \<and> sLen (par pUkf) = ncol (Wm_weight_vector pUkfMatrix)
      \<and> lambda (par pUkf) = alpha (par pUkf) * alpha (par pUkf)
            * (real (unat (xLen (par pUkf))) + kappa (par pUkf)) - real (unat (xLen (par pUkf)))
      \<and> w ! 0 = lambda (par pUkf) / (real (unat (xLen (par pUkf))) + lambda (par pUkf))
      \<and> c ! 0 = w ! 0 + (1 - alpha (par pUkf) * alpha (par pUkf) + betha (par pUkf))
      \<and> (\<forall>i. 1 \<le> i \<and> i < unat (sLen (par pUkf)) \<longrightarrow>
            w ! i = 1 / (2 * (real (unat (xLen (par pUkf))) + lambda (par pUkf))) \<and> c ! i = w ! i)"
proof -
  let ?P = "init_par pUkfMatrix (sc ! alphaIdx) (sc ! bethaIdx) (sc ! kappaIdx)"
  have Pf: "alpha ?P = sc ! alphaIdx" "betha ?P = sc ! bethaIdx" "kappa ?P = sc ! kappaIdx"
    "xLen ?P = nrow (x_system_states pUkfMatrix)"
    "sLen ?P = 2 * nrow (x_system_states pUkfMatrix) + 1"
    "lambda ?P = alpha ?P * alpha ?P * (real (unat (xLen ?P)) + kappa ?P) - real (unat (xLen ?P))"
    "par (init_wiring pUkfMatrix ?P) = ?P"
    by (simp_all add: init_par_def init_wiring_def Let_def)
  from ukf_init_weights [OF sc lim w len cp di]
  obtain st bh' h' w c where r: "ukf_init pUkfMatrix bh h = Inr (st, init_wiring pUkfMatrix ?P, bh', h')"
    "h' aW = Some w" "h' aC = Some c"
    "w ! 0 = lambda ?P / (real (unat (xLen ?P)) + lambda ?P)"
    "c ! 0 = lambda ?P / (real (unat (xLen ?P)) + lambda ?P) + (1 - alpha ?P * alpha ?P + betha ?P)"
    "\<forall>i. 1 \<le> i \<and> i < unat (sLen ?P) \<longrightarrow>
        w ! i = 1 / (2 * (real (unat (xLen ?P)) + lambda ?P)) \<and> c ! i = 1 / (2 * (real (unat (xLen ?P)) + lambda ?P))"
    by blast
  show ?thesis
    apply (rule exI [of _ st], rule exI [of _ "init_wiring pUkfMatrix ?P"], rule exI [of _ bh'],
        rule exI [of _ h'], rule exI [of _ w], rule exI [of _ c])
    using r Pf(1-5) len(1) by (simp only: Pf(7)) (simp add: Pf(6))
qed

lemmas init_hyp_defs = holds_def nelem_def limiter_ready_def xEpsIdx_def alphaIdx_def bethaIdx_def
  kappaIdx_def fmem_init_def

theorem ukf_init_sets_weights_witness:
  "\<exists>st pUkf bh' h' w c. ukf_init (cfg1 1 [None] [None]) bmem1 fmem_init = Inr (st, pUkf, bh', h')
      \<and> h' 1 = Some w \<and> h' 2 = Some c
      \<and> lambda (par pUkf) = 3 \<and> unat (sLen (par pUkf)) = 3
      \<and> w ! 0 = 3 / 4 \<and> c ! 0 = 11 / 4 \<and> w ! 1 = 1 / 8 \<and> c ! 1 = 1 / 8 \<and> w ! 2 = 1 / 8 \<and> c ! 2 = 1 / 8"
proof -
  from ukf_init_sets_weights [of "cfg1 1 [None] [None]" 0 fmem_init "[1, 2, 3]" bmem1 1 2
      "[0, 0, 0]" "[0, 0, 0]" "[4]" "[4]" "[5]" "[5]"]
  obtain st pUkf bh' h' w c where r: "ukf_init (cfg1 1 [None] [None]) bmem1 fmem_init = Inr (st, pUkf, bh', h')"
    "h' 1 = Some w" "h' 2 = Some c"
    "alpha (par pUkf) = 1" "betha (par pUkf) = 2" "kappa (par pUkf) = 3"
    "xLen (par pUkf) = 1" "sLen (par pUkf) = 3"
    "lambda (par pUkf) = alpha (par pUkf) * alpha (par pUkf)
            * (real (unat (xLen (par pUkf))) + kappa (par pUkf)) - real (unat (xLen (par pUkf)))"
    "w ! 0 = lambda (par pUkf) / (real (unat (xLen (par pUkf))) + lambda (par pUkf))"
    "c ! 0 = w ! 0 + (1 - alpha (par pUkf) * alpha (par pUkf) + betha (par pUkf))"
    "\<forall>i. 1 \<le> i \<and> i < unat (sLen (par pUkf)) \<longrightarrow>
            w ! i = 1 / (2 * (real (unat (xLen (par pUkf))) + lambda (par pUkf))) \<and> c ! i = w ! i"
    by (auto simp: init_hyp_defs ex_defs)
  have l: "lambda (par pUkf) = 3" using r(9) by (simp add: r(4-7))
  have "w ! 1 = 1 / 8 \<and> c ! 1 = 1 / 8" "w ! 2 = 1 / 8 \<and> c ! 2 = 1 / 8"
    using r(12) [rule_format, of 1] r(12) [rule_format, of 2] by (simp_all add: r(7,8) l)
  moreover have "w ! 0 = 3 / 4" "c ! 0 = 11 / 4"
    using r(10,11) by (simp_all add: r(4-7) l)
  ultimately show ?thesis
    using r(1-3,8) l by auto
qed

text \<open>
  C4. The claim is made for every \<open>xLen \<ge> 1\<close>. With 128 states \<open>ukf_init\<close> accepts the
  configuration (status 0) and computes the sigma count \<open>2 * 128 + 1\<close> in eight bits, which
  is 1, not 257; the only weight it writes, \<open>Wm[0] = 3 / 131\<close>, does not sum to 1.
\<close>

theorem ukf_init_sLen_wraps_counterexample:
  "\<exists>pUkf bh' h'. ukf_init cfg128 bmem1 fmem128 = Inr (0, pUkf, bh', h')
      \<and> unat (xLen (par pUkf)) = 128 \<and> alpha (par pUkf) = 1 \<and> kappa (par pUkf) = 3
      \<and> unat (sLen (par pUkf)) = 1
      \<and> unat (sLen (par pUkf)) \<noteq> 2 * unat (xLen (par pUkf)) + 1
      \<and> h' 1 = Some [3 / 131]
      \<and> sum_list (take (unat (sLen (par pUkf))) [3 / 131]) \<noteq> (1 :: real)"
  by (simp add: init_defs cfg128_def fmem128_def init_wiring_def init_par_def mat_def bmem1_def
      mem_of_apply upt_from_0 upt_from_1 mem_defs Let_def)

lemma sum_list_take_weights:
  fixes w :: "real list"
  assumes "Suc n \<le> length w" "\<forall>i. 1 \<le> i \<and> i < Suc n \<longrightarrow> w ! i = v"
  shows "sum_list (take (Suc n) w) = w ! 0 + real n * v"
  using assms
proof (induction n)
  case 0
  then show ?case by (cases w) simp_all
next
  case (Suc n)
  have "take (Suc (Suc n)) w = take (Suc n) w @ [w ! Suc n]"
    using Suc.prems(1) by (simp add: take_Suc_conv_app_nth)
  moreover have "w ! Suc n = v" using Suc.prems(2) by simp
  moreover have "sum_list (take (Suc n) w) = w ! 0 + real n * v"
    using Suc by simp
  ultimately show ?case by (simp add: algebra_simps)
qed

text \<open>
  C4, amended. The sigma count is a \<^verbatim>\<open>uint8_t\<close>, so it equals \<open>2 * xLen + 1\<close> only up to
  127 states, and the weights divide by \<open>xLen + lambda = alpha\<^sup>2 * (xLen + kappa)\<close>, which
  must not be zero. For \<open>1 \<le> xLen \<le> 127\<close>, \<open>alpha\<close> in \<open>(0, 1]\<close> and \<open>xLen + kappa \<noteq> 0\<close>,
  and weight vectors of the sigma count's length as in C3, \<open>ukf_init\<close> leaves
  \<open>sLen = 2 * xLen + 1\<close> and weights \<open>Wm\<close> whose sum over the \<open>sLen\<close> entries is exactly 1.
\<close>

theorem ukf_init_weights_sum:
  fixes pUkfMatrix :: tUkfMatrix and sc :: "real list"
  assumes sc: "val (Sc_vector pUkfMatrix) = Some aS" "h aS = Some sc" "3 \<le> length sc"
    and lim: "limiter_ready (x_system_states_limits pUkfMatrix) (x_system_states_limits_enable pUkfMatrix)
                bh h (unat (nrow (x_system_states_limits pUkfMatrix)))"
    and w: "val (Wm_weight_vector pUkfMatrix) = Some aW" "val (Wc_weight_vector pUkfMatrix) = Some aC"
      "h aW = Some w0" "h aC = Some c0"
    and len: "ncol (Wm_weight_vector pUkfMatrix) = 2 * nrow (x_system_states pUkfMatrix) + 1"
      "ncol (Wc_weight_vector pUkfMatrix) = ncol (Wm_weight_vector pUkfMatrix)"
      "unat (ncol (Wm_weight_vector pUkfMatrix)) \<le> length w0"
      "unat (ncol (Wm_weight_vector pUkfMatrix)) \<le> length c0"
    and cp: "holds h (Pxx_error_covariance pUkfMatrix) pxx"
      "holds h (Pxx0_init_error_covariance pUkfMatrix) pxx0"
      "holds h (x_system_states pUkfMatrix) xs"
      "holds h (x_system_states_ic pUkfMatrix) xs0"
    and di: "distinct [Some aW, Some aC, val (Pxx_error_covariance pUkfMatrix),
      val (x_system_states pUkfMatrix), val (Pxx0_init_error_covariance pUkfMatrix),
      val (x_system_states_ic pUkfMatrix)]"
    and xr: "1 \<le> unat (nrow (x_system_states pUkfMatrix))" "unat (nrow (x_system_states pUkfMatrix)) \<le> 127"
    and al: "0 < sc ! alphaIdx" "sc ! alphaIdx \<le> 1"
    and ka: "real (unat (nrow (x_system_states pUkfMatrix))) + sc ! kappaIdx \<noteq> 0"
  shows "\<exists>st pUkf bh' h' w. ukf_init pUkfMatrix bh h = Inr (st, pUkf, bh', h')
      \<and> h' aW = Some w
      \<and> xLen (par pUkf) = nrow (x_system_states pUkfMatrix)
      \<and> unat (sLen (par pUkf)) = 2 * unat (xLen (par pUkf)) + 1
      \<and> sum_list (take (unat (sLen (par pUkf))) w) = 1"
proof -
  let ?P = "init_par pUkfMatrix (sc ! alphaIdx) (sc ! bethaIdx) (sc ! kappaIdx)"
  let ?x = "unat (nrow (x_system_states pUkfMatrix))"
  have Pf: "xLen ?P = nrow (x_system_states pUkfMatrix)"
    "sLen ?P = 2 * nrow (x_system_states pUkfMatrix) + 1"
    "lambda ?P = sc ! alphaIdx * sc ! alphaIdx * (real ?x + sc ! kappaIdx) - real ?x"
    "par (init_wiring pUkfMatrix ?P) = ?P"
    by (simp_all add: init_par_def init_wiring_def Let_def)
  from ukf_init_weights [OF sc lim w len cp di]
  obtain st bh' h' w c where r: "ukf_init pUkfMatrix bh h = Inr (st, init_wiring pUkfMatrix ?P, bh', h')"
    "h' aW = Some w" "unat (sLen ?P) \<le> length w"
    "w ! 0 = lambda ?P / (real (unat (xLen ?P)) + lambda ?P)"
    "\<forall>i. 1 \<le> i \<and> i < unat (sLen ?P) \<longrightarrow>
        w ! i = 1 / (2 * (real (unat (xLen ?P)) + lambda ?P)) \<and> c ! i = 1 / (2 * (real (unat (xLen ?P)) + lambda ?P))"
    by blast
  have sl: "unat (sLen ?P) = Suc (2 * ?x)"
    using xr(2) by (simp add: Pf unat_word_ariths)
  have d: "real ?x + lambda ?P = sc ! alphaIdx * sc ! alphaIdx * (real ?x + sc ! kappaIdx)"
    by (simp add: Pf)
  have d0: "real ?x + lambda ?P \<noteq> 0"
    unfolding d using al(1) ka by simp
  define D where "D = real ?x + lambda ?P"
  have e: "real (2 * ?x) * (1 / (2 * D)) = real ?x / D" by simp
  have "sum_list (take (Suc (2 * ?x)) w)
      = w ! 0 + real (2 * ?x) * (1 / (2 * (real (unat (xLen ?P)) + lambda ?P)))"
    using r(3,5) by (intro sum_list_take_weights) (simp_all add: sl)
  also have "\<dots> = lambda ?P / D + real ?x / D"
    unfolding r(4) Pf(1) D_def [symmetric] e ..
  also have "\<dots> = 1"
    using d0 by (simp add: add_divide_distrib [symmetric] D_def add.commute)
  finally have s: "sum_list (take (unat (sLen ?P)) w) = 1" by (simp add: sl)
  show ?thesis
    apply (rule exI [of _ st], rule exI [of _ "init_wiring pUkfMatrix ?P"], rule exI [of _ bh'],
        rule exI [of _ h'], rule exI [of _ w])
    using r(1,2) s sl by (simp only: Pf(4)) (simp add: Pf(1))
qed

theorem ukf_init_weights_sum_witness:
  "\<exists>st pUkf bh' h' w. ukf_init (cfg1 1 [None] [None]) bmem1 fmem_init = Inr (st, pUkf, bh', h')
      \<and> h' 1 = Some w
      \<and> xLen (par pUkf) = 1
      \<and> unat (sLen (par pUkf)) = 3
      \<and> sum_list (take 3 w) = 1"
  using ukf_init_weights_sum [of "cfg1 1 [None] [None]" 0 fmem_init "[1, 2, 3]" bmem1 1 2
      "[0, 0, 0]" "[0, 0, 0]" "[4]" "[4]" "[5]" "[5]"]
  by (auto simp: init_hyp_defs ex_defs)

section \<open>The dimension check\<close>

text \<open>
  C6. The claim is that every single mis-shaped mandatory matrix makes \<open>ukf_init\<close> report
  a failure, in particular a mis-shaped \<open>Wm\<close> beside a correct \<open>Wc\<close> and a mis-shaped
  \<open>Pyy\<close> beside a correct copy. The source joins the two shape tests of each pair with
  \<^verbatim>\<open>&&\<close>, so the failure bit needs both matrices of the pair to be wrong. With one state
  and one output, a weight vector \<open>Wm\<close> declared with four columns (the sigma count is
  three; the source's own comment in the branch it then takes reads "UKF init fail"), or a
  \<open>Pyy\<close> declared two by two, \<open>ukf_init\<close> returns 0, the success status. A mis-shaped
  \<open>Pxy\<close>, which is tested on its own, gives 1.
\<close>

theorem ukf_init_accepts_misshaped_Wm:
  "status_of (ukf_init ((cfg1 1 [None] [None])\<lparr>Wm_weight_vector := mat 1 4 1\<rparr>) bmem1 (fmem1 4)) = Inr 0
   \<and> status_of (ukf_init ((cfg1 1 [None] [None])\<lparr>Pyy_out_covariance := mat 2 2 13\<rparr>) bmem1 (fmem1 4)) = Inr 0
   \<and> status_of (ukf_init ((cfg1 1 [None] [None])\<lparr>Pxy_cross_covariance := mat 2 2 16\<rparr>) bmem1 (fmem1 4)) = Inr 1
   \<and> status_of (ukf_init (cfg1 1 [None] [None]) bmem1 (fmem1 4)) = Inr 0"
  by (simp add: status_of_def init_defs ex_defs mem_defs Let_def)

section \<open>Sigma points when the factorization succeeds\<close>

lemma cell_index_inj:
  fixes sl :: nat
  assumes "j < sl" "j' < sl" "sl * i + j = sl * i' + j'"
  shows "i = i' \<and> j = j'"
proof -
  have "(sl * i + j) div sl = i" "(sl * i' + j') div sl = i'"
    using assms(1,2) by simp_all
  then have "i = i'" using assms(3) by simp
  then show ?thesis using assms(3) by simp
qed

lemma cell_index_bound:
  fixes sl :: nat
  assumes "i < xl" "j < sl"
  shows "sl * i + j < xl * sl"
proof -
  have "sl * i + j < sl * i + sl" using assms(2) by simp
  also have "\<dots> = sl * Suc i" by simp
  also have "\<dots> \<le> sl * xl" using assms(1) by (intro mult_le_mono2) simp
  finally show ?thesis by (simp add: mult.commute)
qed

lemma sigma_filled_mono:
  assumes "sigma_filled h s aX aP pc xl sl V F"
    and "\<And>i j. i < xl \<Longrightarrow> j < sl \<Longrightarrow> F' i j \<Longrightarrow> F i j"
  shows "sigma_filled h s aX aP pc xl sl V F'"
  using assms unfolding sigma_filled_def by blast

lemma sigma_filled_write:
  assumes f: "sigma_filled h s aX aP pc xl sl V F" and ij: "i < xl" "j < sl"
    and ne: "aX \<noteq> aP" and sX: "s aX = Some X" and sz: "xl * sl \<le> length (the (h aX))"
  shows "sigma_filled h (s(aX \<mapsto> X[sl * i + j := V i j])) aX aP pc xl sl V
           (\<lambda>i' j'. F i' j' \<or> (i' = i \<and> j' = j))"
proof -
  from f sX have a: "length X = length (the (h aX))" "s aP = Some pc"
    "\<forall>a. a \<noteq> aX \<and> a \<noteq> aP \<longrightarrow> s a = h a"
    "\<forall>i j. i < xl \<and> j < sl \<and> F i j \<longrightarrow> X ! (sl * i + j) = V i j"
    unfolding sigma_filled_def by auto
  have "X[sl * i + j := V i j] ! (sl * i' + j') = V i' j'"
    if "i' < xl" "j' < sl" "F i' j' \<or> (i' = i \<and> j' = j)" for i' j'
  proof (cases "i' = i \<and> j' = j")
    case True
    then show ?thesis using a(1) cell_index_bound [OF ij] sz by simp
  next
    case False
    then have "sl * i + j \<noteq> sl * i' + j'"
      using cell_index_inj [OF ij(2) that(2)] by blast
    then show ?thesis using a(4) that False by simp
  qed
  then show ?thesis
    unfolding sigma_filled_def using a ne by auto
qed

lemma sigma_filled_scale:
  assumes "sigma_filled h s aX aP pc xl sl V F" "aX \<noteq> aP"
  shows "sigma_filled h (s(aP \<mapsto> pc')) aX aP pc' xl sl V F"
  using assms unfolding sigma_filled_def by auto

lemma state_limits_run:
  assumes "limiter_ready (xLim (par pUkf)) (xLimEnbl (par pUkf)) bh h n" "i < n"
    and "\<forall>a. val (xLim (par pUkf)) = Some a \<longrightarrow> s a = h a"
  shows "\<exists>lo hi en. state_limits pUkf bh s i = Inr (lo, hi, en)
           \<and> (\<forall>v. ukf_state_limiter v lo hi en = limiter_of pUkf bh h i v)"
proof (cases "valB (xLimEnbl (par pUkf)) \<noteq> None \<and> val (xLim (par pUkf)) \<noteq> None")
  case False
  then show ?thesis
    by (auto simp: state_limits_def limiter_of_def ukf_state_limiter_def split: option.splits)
next
  case True
  with assms(1) obtain aL aE l e where a: "val (xLim (par pUkf)) = Some aL"
    "valB (xLimEnbl (par pUkf)) = Some aE" "h aL = Some l" "bh aE = Some e" "n \<le> length e"
    "\<forall>i<n. unat (ncol (xLim (par pUkf))) * i + xEpsIdx < length l"
    by (auto simp: limiter_ready_def split: option.splits)
  have s: "s aL = Some l" using assms(3) a(1,3) by simp
  have b: "unat (ncol (xLim (par pUkf))) * i + xMinIdx < length l"
    "unat (ncol (xLim (par pUkf))) * i + xMaxIdx < length l" "i < length e"
    using a(5,6) assms(2) by (auto simp: xMinIdx_def xMaxIdx_def xEpsIdx_def)
  show ?thesis
    using a(1-4) s b by (simp add: state_limits_def limiter_of_def rd_ok)
qed

lemma sigma_first_run:
  assumes e: "sigma_env pUkf bh h aX ax aP x"
    and f: "sigma_filled h s aX aP pc (unat (xLen (par pUkf))) (unat (sLen (par pUkf))) V F"
    and i: "i < unat (xLen (par pUkf))" and sX: "s aX = Some X"
    and pos: "0 < unat (sLen (par pUkf))"
  shows "sigma_first pUkf bh i s
           = Inr (s(aX \<mapsto> X[unat (sLen (par pUkf)) * i + 0 := limiter_of pUkf bh h i (x ! i)]))"
proof -
  let ?xl = "unat (xLen (par pUkf))" and ?sl = "unat (sLen (par pUkf))"
  from e have env: "val (X_p (prev pUkf)) = Some aX" "val (x_p (prev pUkf)) = Some ax"
    "h ax = Some x" "?xl \<le> length x" "?xl * ?sl \<le> length (the (h aX))"
    "limiter_ready (xLim (par pUkf)) (xLimEnbl (par pUkf)) bh h ?xl"
    "aX \<noteq> ax" "aX \<noteq> aP" "ax \<noteq> aP"
    "val (xLim (par pUkf)) \<noteq> Some aX" "val (xLim (par pUkf)) \<noteq> Some aP"
    unfolding sigma_env_def by auto
  from f sX have a: "length X = length (the (h aX))"
    "\<forall>a. a \<noteq> aX \<and> a \<noteq> aP \<longrightarrow> s a = h a"
    unfolding sigma_filled_def by auto
  have "\<forall>a. val (xLim (par pUkf)) = Some a \<longrightarrow> s a = h a"
    using a(2) env(10,11) by auto
  from state_limits_run [OF env(6) i this]
  obtain lo hi en where l: "state_limits pUkf bh s i = Inr (lo, hi, en)"
    "\<forall>v. ukf_state_limiter v lo hi en = limiter_of pUkf bh h i v" by blast
  have sx: "s ax = Some x" using a(2) env(3,7,9) by simp
  have "?sl * i + 0 < ?xl * ?sl" by (rule cell_index_bound [OF i pos])
  then have b: "?sl * i + 0 < length X"
    using env(5) a(1) by linarith
  show ?thesis
    using l sx sX b i env(1,2,4) by (simp add: sigma_first_def rd_ok wr_ok)
qed

lemma sigma_col_run:
  assumes e: "sigma_env pUkf bh h aX ax aP x"
    and f: "sigma_filled h s aX aP S (unat (xLen (par pUkf))) (unat (sLen (par pUkf))) V F"
    and i: "i < unat (xLen (par pUkf))" and sX: "s aX = Some X"
    and j: "1 \<le> j" "j < unat (sLen (par pUkf))"
    and sl: "unat (sLen (par pUkf)) = 2 * unat (xLen (par pUkf)) + 1"
    and lS: "length S = unat (xLen (par pUkf)) * unat (xLen (par pUkf))"
  shows "sigma_col pUkf bh j i s
           = Inr (s(aX \<mapsto> X[unat (sLen (par pUkf)) * i + j := sigma_value pUkf bh h x S i j]))"
proof -
  let ?xl = "unat (xLen (par pUkf))" and ?sl = "unat (sLen (par pUkf))"
  from e have env: "val (X_p (prev pUkf)) = Some aX" "val (x_p (prev pUkf)) = Some ax"
    "h ax = Some x" "?xl \<le> length x" "?xl * ?sl \<le> length (the (h aX))"
    "limiter_ready (xLim (par pUkf)) (xLimEnbl (par pUkf)) bh h ?xl"
    "aX \<noteq> ax" "aX \<noteq> aP" "ax \<noteq> aP"
    "val (xLim (par pUkf)) \<noteq> Some aX" "val (xLim (par pUkf)) \<noteq> Some aP"
    "val (Pxx_p (prev pUkf)) = Some aP"
    unfolding sigma_env_def by auto
  from f sX have a: "length X = length (the (h aX))" "s aP = Some S"
    "\<forall>a. a \<noteq> aX \<and> a \<noteq> aP \<longrightarrow> s a = h a"
    unfolding sigma_filled_def by auto
  have "\<forall>a. val (xLim (par pUkf)) = Some a \<longrightarrow> s a = h a"
    using a(3) env(10,11) by auto
  from state_limits_run [OF env(6) i this]
  obtain lo hi en where l: "state_limits pUkf bh s i = Inr (lo, hi, en)"
    "\<forall>v. ukf_state_limiter v lo hi en = limiter_of pUkf bh h i v" by blast
  have sx: "s ax = Some x" using a(3) env(3,7,9) by simp
  have "?sl * i + j < ?xl * ?sl" by (rule cell_index_bound [OF i j(2)])
  then have b: "?sl * i + j < length X"
    using env(5) a(1) by linarith
  have c1: "?xl * i + (j - 1) < length S" if "j \<le> ?xl"
  proof -
    have "j - 1 < ?xl" using that j(1) by linarith
    from cell_index_bound [OF i this] show ?thesis using lS by simp
  qed
  have c2: "?xl * i + (j - ?xl - 1) < length S" if "\<not> j \<le> ?xl"
  proof -
    have "j - ?xl - 1 < ?xl" using that j sl by linarith
    from cell_index_bound [OF i this] show ?thesis using lS by simp
  qed
  show ?thesis
  proof (cases "j \<le> ?xl")
    case True
    then show ?thesis
      using l sx sX b i env(1,2,4,12) a(2) c1 j(1)
      by (simp add: sigma_col_def sigma_value_def Let_def rd_ok wr_ok)
  next
    case False
    then show ?thesis
      using l sx sX b i env(1,2,4,12) a(2) c2 j(1)
      by (simp add: sigma_col_def sigma_value_def Let_def rd_ok wr_ok)
  qed
qed

lemma sigma_first_loop:
  assumes e: "sigma_env pUkf bh h aX ax aP x" and pos: "0 < unat (sLen (par pUkf))"
    and f: "sigma_filled h s0 aX aP pc (unat (xLen (par pUkf))) (unat (sLen (par pUkf)))
              (sigma_value pUkf bh h x S) (\<lambda>i j. False)"
  shows "\<exists>s'. forM [0..<unat (xLen (par pUkf))] (sigma_first pUkf bh) s0 = Inr s'
           \<and> sigma_filled h s' aX aP pc (unat (xLen (par pUkf))) (unat (sLen (par pUkf)))
               (sigma_value pUkf bh h x S) (\<lambda>i j. j = 0)"
proof -
  let ?xl = "unat (xLen (par pUkf))" and ?sl = "unat (sLen (par pUkf))"
  let ?V = "sigma_value pUkf bh h x S"
  let ?I = "\<lambda>k s. sigma_filled h s aX aP pc ?xl ?sl ?V (\<lambda>i j. j = 0 \<and> i < k)"
  from e have env: "aX \<noteq> aP" "?xl * ?sl \<le> length (the (h aX))"
    unfolding sigma_env_def by auto
  have "\<exists>s'. forM [0..<?xl] (sigma_first pUkf bh) s0 = Inr s' \<and> ?I ?xl s'"
  proof (rule forM_upt_total [where I = ?I])
    show "0 \<le> ?xl" by simp
    show "?I 0 s0" using f by (rule sigma_filled_mono) simp
    show "\<exists>s'. sigma_first pUkf bh k s = Inr s' \<and> ?I (Suc k) s'"
      if "0 \<le> k" "k < ?xl" "?I k s" for k s
    proof -
      from that(3) obtain X where sX: "s aX = Some X" unfolding sigma_filled_def by blast
      have v: "?V k 0 = limiter_of pUkf bh h k (x ! k)" by (simp add: sigma_value_def)
      have run: "sigma_first pUkf bh k s = Inr (s(aX \<mapsto> X[?sl * k + 0 := ?V k 0]))"
        unfolding v by (rule sigma_first_run [OF e that(3,2) sX pos])
      have "sigma_filled h (s(aX \<mapsto> X[?sl * k + 0 := ?V k 0])) aX aP pc ?xl ?sl ?V
              (\<lambda>i' j'. (j' = 0 \<and> i' < k) \<or> (i' = k \<and> j' = 0))"
        by (rule sigma_filled_write [OF that(3,2) pos env(1) sX env(2)])
      then have "?I (Suc k) (s(aX \<mapsto> X[?sl * k + 0 := ?V k 0]))"
        by (rule sigma_filled_mono) auto
      with run show ?thesis by blast
    qed
  qed
  then obtain s' where s': "forM [0..<?xl] (sigma_first pUkf bh) s0 = Inr s'" "?I ?xl s'" by blast
  have "sigma_filled h s' aX aP pc ?xl ?sl ?V (\<lambda>i j. j = 0)"
    using s'(2) by (rule sigma_filled_mono) simp
  with s'(1) show ?thesis by blast
qed

lemma sigma_col_loop:
  assumes e: "sigma_env pUkf bh h aX ax aP x"
    and sl: "unat (sLen (par pUkf)) = 2 * unat (xLen (par pUkf)) + 1"
    and lS: "length S = unat (xLen (par pUkf)) * unat (xLen (par pUkf))"
    and c: "1 \<le> c" "c < unat (sLen (par pUkf))"
    and f: "sigma_filled h s0 aX aP S (unat (xLen (par pUkf))) (unat (sLen (par pUkf)))
              (sigma_value pUkf bh h x S) (\<lambda>i j. j < c)"
  shows "\<exists>s'. forM [0..<unat (xLen (par pUkf))] (sigma_col pUkf bh c) s0 = Inr s'
           \<and> sigma_filled h s' aX aP S (unat (xLen (par pUkf))) (unat (sLen (par pUkf)))
               (sigma_value pUkf bh h x S) (\<lambda>i j. j < Suc c)"
proof -
  let ?xl = "unat (xLen (par pUkf))" and ?sl = "unat (sLen (par pUkf))"
  let ?V = "sigma_value pUkf bh h x S"
  let ?I = "\<lambda>k s. sigma_filled h s aX aP S ?xl ?sl ?V (\<lambda>i j. j < c \<or> (j = c \<and> i < k))"
  from e have env: "aX \<noteq> aP" "?xl * ?sl \<le> length (the (h aX))"
    unfolding sigma_env_def by auto
  have "\<exists>s'. forM [0..<?xl] (sigma_col pUkf bh c) s0 = Inr s' \<and> ?I ?xl s'"
  proof (rule forM_upt_total [where I = ?I])
    show "0 \<le> ?xl" by simp
    show "?I 0 s0" using f by (rule sigma_filled_mono) simp
    show "\<exists>s'. sigma_col pUkf bh c k s = Inr s' \<and> ?I (Suc k) s'"
      if "0 \<le> k" "k < ?xl" "?I k s" for k s
    proof -
      from that(3) obtain X where sX: "s aX = Some X" unfolding sigma_filled_def by blast
      have run: "sigma_col pUkf bh c k s = Inr (s(aX \<mapsto> X[?sl * k + c := ?V k c]))"
        by (rule sigma_col_run [OF e that(3,2) sX c sl lS])
      have "sigma_filled h (s(aX \<mapsto> X[?sl * k + c := ?V k c])) aX aP S ?xl ?sl ?V
              (\<lambda>i' j'. (j' < c \<or> (j' = c \<and> i' < k)) \<or> (i' = k \<and> j' = c))"
        by (rule sigma_filled_write [OF that(3,2) c(2) env(1) sX env(2)])
      then have "?I (Suc k) (s(aX \<mapsto> X[?sl * k + c := ?V k c]))"
        by (rule sigma_filled_mono) auto
      with run show ?thesis by blast
    qed
  qed
  then obtain s' where s': "forM [0..<?xl] (sigma_col pUkf bh c) s0 = Inr s'" "?I ?xl s'" by blast
  have "sigma_filled h s' aX aP S ?xl ?sl ?V (\<lambda>i j. j < Suc c)"
    using s'(2) by (rule sigma_filled_mono) auto
  with s'(1) show ?thesis by blast
qed

lemma sigma_cols_loop:
  assumes e: "sigma_env pUkf bh h aX ax aP x"
    and sl: "unat (sLen (par pUkf)) = 2 * unat (xLen (par pUkf)) + 1"
    and lS: "length S = unat (xLen (par pUkf)) * unat (xLen (par pUkf))"
    and f: "sigma_filled h s0 aX aP S (unat (xLen (par pUkf))) (unat (sLen (par pUkf)))
              (sigma_value pUkf bh h x S) (\<lambda>i j. j = 0)"
  shows "\<exists>s'. forM [1..<unat (sLen (par pUkf))]
                 (\<lambda>sigmaIdx. forM [0..<unat (xLen (par pUkf))] (sigma_col pUkf bh sigmaIdx)) s0 = Inr s'
           \<and> sigma_filled h s' aX aP S (unat (xLen (par pUkf))) (unat (sLen (par pUkf)))
               (sigma_value pUkf bh h x S) (\<lambda>i j. True)"
proof -
  let ?xl = "unat (xLen (par pUkf))" and ?sl = "unat (sLen (par pUkf))"
  let ?V = "sigma_value pUkf bh h x S"
  let ?I = "\<lambda>c s. sigma_filled h s aX aP S ?xl ?sl ?V (\<lambda>i j. j < c)"
  have "\<exists>s'. forM [1..<?sl] (\<lambda>sigmaIdx. forM [0..<?xl] (sigma_col pUkf bh sigmaIdx)) s0 = Inr s'
          \<and> ?I ?sl s'"
  proof (rule forM_upt_total [where I = ?I])
    show "1 \<le> ?sl" using sl by simp
    show "?I 1 s0" using f by (rule sigma_filled_mono) simp
    show "\<exists>s'. forM [0..<?xl] (sigma_col pUkf bh c) s = Inr s' \<and> ?I (Suc c) s'"
      if "1 \<le> c" "c < ?sl" "?I c s" for c s
      by (rule sigma_col_loop [OF e sl lS that])
  qed
  then obtain s' where s': "forM [1..<?sl] (\<lambda>sigmaIdx. forM [0..<?xl] (sigma_col pUkf bh sigmaIdx)) s0 = Inr s'"
    "?I ?sl s'" by blast
  have "sigma_filled h s' aX aP S ?xl ?sl ?V (\<lambda>i j. True)"
    using s'(2) by (rule sigma_filled_mono) simp
  with s'(1) show ?thesis by blast
qed

lemma mat_identity_nth_0: "0 < n \<Longrightarrow> mat_identity n ! 0 = 1"
  by (cases n) (simp_all add: mat_identity_def upt_conv_Cons del: upt_Suc)

lemma ukf_sigmapoint_one_column:
  fixes pUkf :: tUKF and L :: "real list"
  defines "xl \<equiv> unat (xLen (par pUkf))"
    and "S \<equiv> map (\<lambda>v. v * sqrt (real (unat (xLen (par pUkf))) + lambda (par pUkf))) L"
  assumes sl: "unat (sLen (par pUkf)) = 1"
    and X: "val (X_p (prev pUkf)) = Some aX" "h aX = Some X0" "xl \<le> length X0"
    and x: "val (x_p (prev pUkf)) = Some ax" "h ax = Some x" "xl \<le> length x"
    and P: "val (Pxx_p (prev pUkf)) = Some aP" "h aP = Some P0" "length P0 = xl * xl"
      "nrow (Pxx_p (prev pUkf)) = xLen (par pUkf)" "ncol (Pxx_p (prev pUkf)) = xLen (par pUkf)"
    and lim: "limiter_ready (xLim (par pUkf)) (xLimEnbl (par pUkf)) bh h xl"
    and di: "distinct [Some aX, Some ax, Some aP]"
      "val (xLim (par pUkf)) \<noteq> Some aX" "val (xLim (par pUkf)) \<noteq> Some aP"
    and ch: "chol_op ops xl P0 = (MTX_OPERATION_OK, L)" "length L = xl * xl"
  shows "\<exists>h' Xs. mtx_chol_lower ops h (Pxx_p (prev pUkf)) = Inr (MTX_OPERATION_OK, h(aP \<mapsto> L))
      \<and> ukf_sigmapoint ops pUkf bh h = Inr h' \<and> h' aX = Some Xs \<and> h' aP = Some S
      \<and> (\<forall>i<xl. Xs ! i = limiter_of pUkf bh h i (x ! i))"
proof -
  let ?V = "sigma_value pUkf bh h x S"
  let ?c = "sqrt (real xl + lambda (par pUkf))"
  have e: "sigma_env pUkf bh h aX ax aP x"
    using X x P(1) lim di sl unfolding sigma_env_def xl_def by auto
  have ne: "aX \<noteq> aP" using di by simp
  have nel: "nelem (Pxx_p (prev pUkf)) = xl * xl"
    by (simp add: nelem_def P(4,5) xl_def)
  have pos: "0 < unat (sLen (par pUkf))" using sl by simp
  have c0: "mtx_chol_lower ops h (Pxx_p (prev pUkf)) = Inr (MTX_OPERATION_OK, h(aP \<mapsto> L))"
    using mtx_chol_lower_run [of "Pxx_p (prev pUkf)" aP h P0 ops] P ch nel by (simp add: xl_def)
  have f0: "sigma_filled h (h(aP \<mapsto> L)) aX aP L (unat (xLen (par pUkf))) (unat (sLen (par pUkf))) ?V (\<lambda>i j. False)"
    using X(2) ne by (simp add: sigma_filled_def)
  from sigma_first_loop [OF e pos f0]
  obtain s1 where s1: "forM [0..<unat (xLen (par pUkf))] (sigma_first pUkf bh) (h(aP \<mapsto> L)) = Inr s1"
    and f1: "sigma_filled h s1 aX aP L (unat (xLen (par pUkf))) (unat (sLen (par pUkf))) ?V (\<lambda>i j. j = 0)"
    by blast
  have s1P: "s1 aP = Some L" using f1 unfolding sigma_filled_def by blast
  have c2: "mtx_mul_scalar s1 (Pxx_p (prev pUkf)) ?c = Inr (MTX_OPERATION_OK, s1(aP \<mapsto> S))"
    using mtx_mul_scalar_run [of "Pxx_p (prev pUkf)" aP s1 L ?c] P(1) s1P ch(2) nel by (simp add: S_def xl_def)
  have f2: "sigma_filled h (s1(aP \<mapsto> S)) aX aP S (unat (xLen (par pUkf))) (unat (sLen (par pUkf))) ?V (\<lambda>i j. j = 0)"
    by (rule sigma_filled_scale [OF f1 ne])
  have run: "ukf_sigmapoint ops pUkf bh h = Inr (s1(aP \<mapsto> S))"
    using c0 s1 c2 sl by (simp add: ukf_sigmapoint_def Let_def xl_def)
  from f2 obtain Xs where Xs: "(s1(aP \<mapsto> S)) aX = Some Xs" "(s1(aP \<mapsto> S)) aP = Some S"
    and v: "\<And>i j. i < xl \<Longrightarrow> j < 1 \<Longrightarrow> Xs ! (1 * i + j) = ?V i j"
    unfolding sigma_filled_def xl_def sl by blast
  have "Xs ! i = limiter_of pUkf bh h i (x ! i)" if "i < xl" for i
    using v [OF that, of 0] by (simp add: sigma_value_def)
  then show ?thesis using c0 run Xs by blast
qed

text \<open>
  C1. The claim is made for every filter state in which the factorization succeeds. The
  sigma count is a \<^verbatim>\<open>uint8_t\<close>: for the filter that \<open>ukf_init\<close> builds (with status 0) from
  128 states it is 1, so the loop over the columns \<open>1..sLen-1\<close> does not run and the sigma
  points are one column, the previous mean. With previous mean \<open>[5, 7, 0, \<dots>]\<close> and the
  identity as covariance the factorization succeeds, and the entry at \<open>sLen * 0 + 1\<close>, where
  state 0 would have its column 1, is 7, the mean of state 1, and not
  \<open>clamp (x_p[0] + S[0][0]) = 5 + sqrt 131\<close>.
\<close>

theorem ukf_sigmapoint_128_states_counterexample:
  "ukf_init cfg128 bmem1 fmem128c = Inr (0, ukf128, bmem1, fmem128i)
   \<and> unat (xLen (par ukf128)) = 128 \<and> unat (sLen (par ukf128)) = 1
   \<and> fmem128i 3 = Some (5 # 7 # replicate 126 0)
   \<and> (\<exists>h' Xs S.
         mtx_chol_lower ops128 fmem128i (Pxx_p (prev ukf128))
           = Inr (MTX_OPERATION_OK, fmem128i(17 \<mapsto> mat_identity 128))
         \<and> ukf_sigmapoint ops128 ukf128 bmem1 fmem128i = Inr h'
         \<and> h' 9 = Some Xs \<and> h' 17 = Some S
         \<and> Xs ! (unat (sLen (par ukf128)) * 0 + 1) = 7
         \<and> limiter_of ukf128 bmem1 fmem128i 0 (5 + S ! (unat (xLen (par ukf128)) * 0 + (1 - 1))) = 5 + sqrt 131
         \<and> Xs ! (unat (sLen (par ukf128)) * 0 + 1)
             \<noteq> limiter_of ukf128 bmem1 fmem128i 0 (5 + S ! (unat (xLen (par ukf128)) * 0 + (1 - 1))))"
proof -
  note defs = ukf128_def cfg128_def fmem128i_def fmem128c_def fmem128_def init_wiring_def init_par_def
    mat_def bmem1_def mem_of_apply ops128_def chol_unit_def
  have init: "ukf_init cfg128 bmem1 fmem128c = Inr (0, ukf128, bmem1, fmem128i)"
    by (simp add: init_defs defs upt_from_0 upt_from_1 mem_defs Let_def fun_eq_iff)
  have dims: "unat (xLen (par ukf128)) = 128" "unat (sLen (par ukf128)) = 1"
    "fmem128i 3 = Some (5 # 7 # replicate 126 0)"
    by (simp_all add: defs Let_def)
  from ukf_sigmapoint_one_column [of ukf128 9 fmem128i "replicate 128 0" 3 "5 # 7 # replicate 126 0"
      17 "mat_identity 128" bmem1 ops128 "mat_identity 128"]
  obtain h' Xs where r:
    "mtx_chol_lower ops128 fmem128i (Pxx_p (prev ukf128)) = Inr (MTX_OPERATION_OK, fmem128i(17 \<mapsto> mat_identity 128))"
    "ukf_sigmapoint ops128 ukf128 bmem1 fmem128i = Inr h'" "h' 9 = Some Xs"
    "h' 17 = Some (map (\<lambda>v. v * sqrt 131) (mat_identity 128))"
    and col0: "\<forall>i<128. Xs ! i = limiter_of ukf128 bmem1 fmem128i i ((5 # 7 # replicate 126 0) ! i)"
    by (auto simp: defs Let_def limiter_ready_def)
  have lo: "limiter_of ukf128 bmem1 fmem128i i v = v" for i v
    by (simp add: limiter_of_def defs Let_def)
  have x1: "Xs ! 1 = 7" using col0 [rule_format, of 1] by (simp add: lo)
  have s0: "map (\<lambda>v. v * sqrt 131) (mat_identity 128) ! 0 = sqrt 131"
    by (simp add: mat_identity_nth_0)
  have "2 < sqrt (131 :: real)"
    using real_sqrt_less_mono [of 4 131] by simp
  then have ne: "(7 :: real) \<noteq> 5 + sqrt 131" by simp
  show ?thesis
    apply (intro conjI init dims)
    apply (rule exI [of _ h'], rule exI [of _ Xs],
        rule exI [of _ "map (\<lambda>v. v * sqrt 131) (mat_identity 128)"])
    using r x1 s0 ne by (simp add: dims lo)
qed

text \<open>
  C1, amended. Let the sigma count be \<open>2 * xLen + 1\<close> (for the \<^verbatim>\<open>uint8_t\<close> that \<open>ukf_init\<close>
  computes this means at most 127 states), let the sigma points, the previous mean and
  the previous covariance (\<open>xLen \<times> xLen\<close>) lie in three different buffers large enough, the
  limiter arrays be absent or in range and outside the two written buffers, and let the
  factorization succeed with factor \<open>L\<close>. Then \<open>ukf_sigmapoint\<close> returns; the covariance
  buffer holds \<open>S\<close>, the factor scaled by \<open>sqrt (xLen + lambda)\<close>; and for every state \<open>i\<close>
  column 0 of the sigma points is the clamped previous mean, column \<open>j\<close> is
  \<open>clamp (x_p[i] + S[i][j-1])\<close> and column \<open>xLen + j\<close> is \<open>clamp (x_p[i] - S[i][j-1])\<close> for
  \<open>j\<close> in \<open>1..xLen\<close>.
\<close>

theorem ukf_sigmapoint_columns:
  fixes pUkf :: tUKF and L :: "real list"
  defines "xl \<equiv> unat (xLen (par pUkf))" and "sl \<equiv> unat (sLen (par pUkf))"
    and "S \<equiv> map (\<lambda>v. v * sqrt (real (unat (xLen (par pUkf))) + lambda (par pUkf))) L"
  assumes sl: "sl = 2 * xl + 1"
    and X: "val (X_p (prev pUkf)) = Some aX" "h aX = Some X0" "xl * sl \<le> length X0"
    and x: "val (x_p (prev pUkf)) = Some ax" "h ax = Some x" "xl \<le> length x"
    and P: "val (Pxx_p (prev pUkf)) = Some aP" "h aP = Some P0" "length P0 = xl * xl"
      "nrow (Pxx_p (prev pUkf)) = xLen (par pUkf)" "ncol (Pxx_p (prev pUkf)) = xLen (par pUkf)"
    and lim: "limiter_ready (xLim (par pUkf)) (xLimEnbl (par pUkf)) bh h xl"
    and di: "distinct [Some aX, Some ax, Some aP]"
      "val (xLim (par pUkf)) \<noteq> Some aX" "val (xLim (par pUkf)) \<noteq> Some aP"
    and ch: "chol_op ops xl P0 = (MTX_OPERATION_OK, L)" "length L = xl * xl"
  shows "\<exists>h' Xs. ukf_sigmapoint ops pUkf bh h = Inr h' \<and> h' aX = Some Xs \<and> h' aP = Some S
      \<and> (\<forall>i<xl. Xs ! (sl * i + 0) = limiter_of pUkf bh h i (x ! i)
            \<and> (\<forall>j. 1 \<le> j \<and> j \<le> xl \<longrightarrow>
                  Xs ! (sl * i + j) = limiter_of pUkf bh h i (x ! i + S ! (xl * i + (j - 1)))
                \<and> Xs ! (sl * i + (xl + j)) = limiter_of pUkf bh h i (x ! i - S ! (xl * i + (j - 1)))))"
proof -
  let ?V = "sigma_value pUkf bh h x S"
  let ?c = "sqrt (real xl + lambda (par pUkf))"
  have e: "sigma_env pUkf bh h aX ax aP x"
    using X x P(1) lim di unfolding sigma_env_def xl_def sl_def by auto
  have ne: "aX \<noteq> aP" using di by simp
  have nel: "nelem (Pxx_p (prev pUkf)) = xl * xl"
    by (simp add: nelem_def P(4,5) xl_def)
  have sl': "unat (sLen (par pUkf)) = 2 * unat (xLen (par pUkf)) + 1"
    using sl by (simp add: xl_def sl_def)
  have lS: "length S = unat (xLen (par pUkf)) * unat (xLen (par pUkf))"
    using ch(2) by (simp add: S_def xl_def)
  have pos: "0 < unat (sLen (par pUkf))" using sl' by simp
  have c0: "mtx_chol_lower ops h (Pxx_p (prev pUkf)) = Inr (MTX_OPERATION_OK, h(aP \<mapsto> L))"
    using mtx_chol_lower_run [of "Pxx_p (prev pUkf)" aP h P0 ops] P ch nel by (simp add: xl_def)
  have f0: "sigma_filled h (h(aP \<mapsto> L)) aX aP L (unat (xLen (par pUkf))) (unat (sLen (par pUkf))) ?V (\<lambda>i j. False)"
    using X(2) ne by (simp add: sigma_filled_def)
  from sigma_first_loop [OF e pos f0]
  obtain s1 where s1: "forM [0..<unat (xLen (par pUkf))] (sigma_first pUkf bh) (h(aP \<mapsto> L)) = Inr s1"
    and f1: "sigma_filled h s1 aX aP L (unat (xLen (par pUkf))) (unat (sLen (par pUkf))) ?V (\<lambda>i j. j = 0)"
    by blast
  have s1P: "s1 aP = Some L" using f1 unfolding sigma_filled_def by blast
  have c2: "mtx_mul_scalar s1 (Pxx_p (prev pUkf)) ?c = Inr (MTX_OPERATION_OK, s1(aP \<mapsto> S))"
    using mtx_mul_scalar_run [of "Pxx_p (prev pUkf)" aP s1 L ?c] P(1) s1P ch(2) nel by (simp add: S_def xl_def)
  have f2: "sigma_filled h (s1(aP \<mapsto> S)) aX aP S (unat (xLen (par pUkf))) (unat (sLen (par pUkf))) ?V (\<lambda>i j. j = 0)"
    by (rule sigma_filled_scale [OF f1 ne])
  from sigma_cols_loop [OF e sl' lS f2]
  obtain s3 where s3: "forM [1..<unat (sLen (par pUkf))]
        (\<lambda>sigmaIdx. forM [0..<unat (xLen (par pUkf))] (sigma_col pUkf bh sigmaIdx)) (s1(aP \<mapsto> S)) = Inr s3"
    and f3: "sigma_filled h s3 aX aP S (unat (xLen (par pUkf))) (unat (sLen (par pUkf))) ?V (\<lambda>i j. True)"
    by blast
  have run: "ukf_sigmapoint ops pUkf bh h = Inr s3"
    using c0 s1 c2 s3 by (simp add: ukf_sigmapoint_def Let_def xl_def)
  from f3 obtain Xs where Xs: "s3 aX = Some Xs" "s3 aP = Some S"
    and v: "\<And>i j. i < xl \<Longrightarrow> j < sl \<Longrightarrow> Xs ! (sl * i + j) = ?V i j"
    unfolding sigma_filled_def xl_def sl_def by blast
  have "Xs ! (sl * i + 0) = limiter_of pUkf bh h i (x ! i)" if "i < xl" for i
    using v [OF that, of 0] sl by (simp add: sigma_value_def)
  moreover have "Xs ! (sl * i + j) = limiter_of pUkf bh h i (x ! i + S ! (xl * i + (j - 1)))"
    if "i < xl" "1 \<le> j" "j \<le> xl" for i j
    using v [OF that(1), of j] sl that(2,3) by (simp add: sigma_value_def xl_def [symmetric])
  moreover have "Xs ! (sl * i + (xl + j)) = limiter_of pUkf bh h i (x ! i - S ! (xl * i + (j - 1)))"
    if "i < xl" "1 \<le> j" "j \<le> xl" for i j
    using v [OF that(1), of "xl + j"] sl that(2,3) by (simp add: sigma_value_def xl_def [symmetric])
  ultimately show ?thesis using run Xs by blast
qed

theorem ukf_sigmapoint_columns_witness:
  "\<exists>h' Xs. ukf_sigmapoint ops1 (ukf1 1 [None] [None]) bmem1 (fmem1 4) = Inr h'
      \<and> h' 9 = Some Xs \<and> h' 17 = Some [4] \<and> Xs ! 0 = 5 \<and> Xs ! 1 = 6 \<and> Xs ! 2 = 1"
proof -
  have "\<exists>h' Xs. ukf_sigmapoint ops1 (ukf1 1 [None] [None]) bmem1 (fmem1 4) = Inr h'
      \<and> h' 9 = Some Xs \<and> h' 17 = Some [4]
      \<and> (Xs ! 0 = 5 \<and> (\<forall>j. 1 \<le> j \<and> j \<le> 1 \<longrightarrow> Xs ! j = 6 \<and> Xs ! (1 + j) = 1))"
    using ukf_sigmapoint_columns [of "ukf1 1 [None] [None]" 9 "fmem1 4" "[7, 8, 9]" 3 "[5]" 17 "[4]"
        bmem1 ops1 "[2]"]
    by (simp add: ex_defs limiter_ready_def limiter_of_def ukf_state_limiter_def xMinIdx_def
        xMaxIdx_def xEpsIdx_def)
  then obtain h' Xs where r: "ukf_sigmapoint ops1 (ukf1 1 [None] [None]) bmem1 (fmem1 4) = Inr h'"
    "h' 9 = Some Xs" "h' 17 = Some [4]" "Xs ! 0 = 5"
    and j: "\<forall>j. 1 \<le> j \<and> j \<le> 1 \<longrightarrow> Xs ! j = 6 \<and> Xs ! (1 + j) = 1"
    by blast
  from j [rule_format, of 1] have "Xs ! 1 = 6" "Xs ! 2 = 1" by (simp_all add: numeral_2_eq_2)
  with r show ?thesis by blast
qed

section \<open>Sigma points when the factorization fails\<close>

text \<open>
  C7. If the lower Cholesky factorization of the previous covariance reports a failure,
  \<open>ukf_sigmapoint\<close> does nothing after it: the store it returns is the one the
  factorization left, and the buffer of the previous sigma points \<open>X_p\<close>, which is not the
  buffer of the covariance, holds what it held before the call.
\<close>

theorem ukf_sigmapoint_chol_fail:
  assumes "mtx_chol_lower ops h (Pxx_p (prev pUkf)) = Inr (st, h1)"
    and "st \<noteq> MTX_OPERATION_OK"
    and "val (X_p (prev pUkf)) = Some a"
    and "val (Pxx_p (prev pUkf)) \<noteq> Some a"
  shows "ukf_sigmapoint ops pUkf bh h = Inr h1 \<and> h1 a = h a"
  using assms by (simp add: ukf_sigmapoint_def mtx_chol_lower_frame)

theorem ukf_sigmapoint_chol_fail_witness:
  "ukf_sigmapoint ops1 (ukf1 1 [None] [None]) bmem1 (fmem1 (- 1)) = Inr (fmem1 (- 1))
   \<and> fmem1 (- 1) 9 = Some [7, 8, 9]"
proof -
  have c: "mtx_chol_lower ops1 (fmem1 (- 1)) (Pxx_p (prev (ukf1 1 [None] [None])))
           = Inr (MTX_OPERATION_FAIL, fmem1 (- 1))"
    by (simp add: mtx_chol_lower_def ex_defs mem_defs fun_eq_iff)
  have "ukf_sigmapoint ops1 (ukf1 1 [None] [None]) bmem1 (fmem1 (- 1)) = Inr (fmem1 (- 1))"
    using ukf_sigmapoint_chol_fail [OF c, of 9 bmem1] by (simp add: ex_defs)
  moreover have "fmem1 (- 1) 9 = Some [7, 8, 9]"
    by (simp add: ex_defs)
  ultimately show ?thesis by simp
qed

section \<open>The observation transform without a callback\<close>

text \<open>
  C5. The claim is that an output without a callback has its entry \<open>Y_m[output][col]\<close> set
  to zero for every sigma column, so that its predicted mean accumulates zeros only. The
  source writes the zero at \<^verbatim>\<open>sigmaLen * sigmaIdx + yIdx\<close>, the transposed place, and
  then reads \<^verbatim>\<open>sigmaLen * yIdx + sigmaIdx\<close>. With one state, three outputs, no callback
  and sigma points of the output that start as ones, the transform ends with the predicted
  output mean \<open>[0, 3/4, 7/8]\<close>: outputs 1 and 2 accumulated entries that were not zero
  yet.
\<close>

theorem ukf_mean_pred_output_stale_entries:
  "\<exists>h'. ukf_mean_pred_output (ukf1 3 [None] [None, None, None]) fmem3 = Inr h'
        \<and> h' 11 = Some [0, 3/4, 7/8]"
  by (simp add: ukf_mean_pred_output_def pred_cov_acc_def observ_col_def fcn_at_def
      mtx_zeros_def mtx_cpy_def fmem3_def ex_defs mem_defs Let_def replicate_num)

text \<open>
  C10. For an output without a callback, the zero of \<open>observ_col\<close> goes to the flat
  index \<open>sLen * sigmaIdx + yIdx\<close> of the \<open>yLen \<times> sLen\<close> matrix \<open>Y_m\<close>. When
  \<open>yLen < sLen\<close> there is a sigma column for which this index is at least
  \<open>yLen * sLen\<close>, and at every column from \<open>yLen\<close> on the checked write fails with that
  index. The failure is reached from \<open>ukf_step\<close>: the one-state, one-output filter without
  callbacks stops at index 3 of its three-entry buffer 10.
\<close>

theorem observ_col_zero_write_out_of_bounds:
  assumes "yIdx < unat (yLen (par pUkf))"
    and "unat (yLen (par pUkf)) < unat (sLen (par pUkf))"
    and "yIdx < length (pFcnObserv (predict pUkf))"
    and "pFcnObserv (predict pUkf) ! yIdx = None"
    and "val (Y_m (predict pUkf)) = Some a"
    and "h a = Some buf"
    and "length buf = unat (yLen (par pUkf)) * unat (sLen (par pUkf))"
  shows "(\<exists>sigmaIdx < unat (sLen (par pUkf)).
            unat (yLen (par pUkf)) * unat (sLen (par pUkf)) \<le> unat (sLen (par pUkf)) * sigmaIdx + yIdx)
         \<and> (\<forall>sigmaIdx. unat (yLen (par pUkf)) \<le> sigmaIdx \<longrightarrow>
               observ_col pUkf sigmaIdx yIdx h =
                 Inl (OutOfBounds a (unat (sLen (par pUkf)) * sigmaIdx + yIdx)
                        (unat (yLen (par pUkf)) * unat (sLen (par pUkf)))))
         \<and> ukf_step ops1 (ukf1 1 [None] [None]) bmem1 (fmem1 4) = Inl (OutOfBounds 10 3 3)"
proof -
  let ?yl = "unat (yLen (par pUkf))" and ?sl = "unat (sLen (par pUkf))"
  have ge: "?yl * ?sl \<le> ?sl * k + yIdx" if "?yl \<le> k" for k
  proof -
    have le: "?yl * ?sl \<le> k * ?sl" using that by (rule mult_le_mono1)
    have "k * ?sl = ?sl * k" by (rule mult.commute)
    with le show ?thesis by linarith
  qed
  have "\<exists>sigmaIdx < ?sl. ?yl * ?sl \<le> ?sl * sigmaIdx + yIdx"
    using assms(2) ge [of ?yl] by blast
  moreover have "observ_col pUkf k yIdx h = Inl (OutOfBounds a (?sl * k + yIdx) (?yl * ?sl))"
    if "?yl \<le> k" for k
    using ge [OF that] assms(3-7) by (simp add: observ_col_def fcn_at_def wr_def Let_def)
  moreover have "ukf_step ops1 (ukf1 1 [None] [None]) bmem1 (fmem1 4) = Inl (OutOfBounds 10 3 3)"
    by (simp add: step_defs ex_defs mem_defs Let_def)
  ultimately show ?thesis by blast
qed

theorem observ_col_zero_write_out_of_bounds_witness:
  "observ_col (ukf1 1 [None] [None]) 1 0 (fmem1 4) = Inl (OutOfBounds 10 3 3)
   \<and> observ_col (ukf1 1 [None] [None]) 2 0 (fmem1 4) = Inl (OutOfBounds 10 6 3)"
proof -
  have "\<forall>sigmaIdx. 1 \<le> sigmaIdx \<longrightarrow>
          observ_col (ukf1 1 [None] [None]) sigmaIdx 0 (fmem1 4) = Inl (OutOfBounds 10 (3 * sigmaIdx) 3)"
    using observ_col_zero_write_out_of_bounds [of 0 "ukf1 1 [None] [None]" 10 "fmem1 4" "[0, 0, 0]"]
    by (simp add: ex_defs)
  from this [rule_format, of 1] this [rule_format, of 2] show ?thesis by simp
qed

section \<open>The measurement update\<close>

lemma ukf_meas_update_result:
  fixes pUkf :: tUKF and xl yl :: "8 word"
  defines "U \<equiv> update pUkf" and "n \<equiv> unat xl" and "m \<equiv> unat yl"
  assumes sh: "shape (Iyy U) yl yl" "shape (Pyy U) yl yl" "shape (Pyy_cpy U) yl yl"
      "shape (Pxy U) xl yl" "shape (K_k U) xl yl"
      "shape (y_k (input pUkf)) yl 1" "shape (y_m (predict pUkf)) yl 1"
      "shape (x_corr U) xl 1" "shape (x_m (predict pUkf)) xl 1"
      "shape (Pxx_corr U) xl xl" "shape (P_m (predict pUkf)) xl xl"
    and ho: "holds h (Iyy U) I0" "holds h (Pyy U) pyy" "holds h (Pyy_cpy U) C0"
      "holds h (Pxy U) pxy" "holds h (K_k U) K0"
      "holds h (y_k (input pUkf)) y" "holds h (y_m (predict pUkf)) ym"
      "holds h (x_corr U) xc0" "holds h (x_m (predict pUkf)) xm"
      "holds h (Pxx_corr U) Pc0" "holds h (P_m (predict pUkf)) Pm"
    and di: "distinct [val (Iyy U), val (Pyy U), val (Pyy_cpy U), val (Pxy U), val (K_k U),
      val (y_k (input pUkf)), val (y_m (predict pUkf)), val (x_corr U), val (x_m (predict pUkf)),
      val (Pxx_corr U), val (P_m (predict pUkf))]"
    and iv: "length (fst (snd (inv_op ops m pyy (mat_identity m)))) = m * m"
      "length (snd (snd (inv_op ops m pyy (mat_identity m)))) = m * m"
  shows "\<exists>h'. ukf_meas_update ops pUkf h = Inr h'
      \<and> holds h' (Pyy U) pyy
      \<and> holds h' (K_k U) (kalman_gain ops n m pxy pyy)
      \<and> holds h' (y_k (input pUkf)) (map2 (-) y ym)
      \<and> holds h' (x_corr U) (mat_mul n m 1 (kalman_gain ops n m pxy pyy) (map2 (-) y ym))
      \<and> holds h' (x_m (predict pUkf))
           (map2 (+) xm (mat_mul n m 1 (kalman_gain ops n m pxy pyy) (map2 (-) y ym)))
      \<and> holds h' (Pxy U) (mat_mul n m m (kalman_gain ops n m pxy pyy) pyy)
      \<and> holds h' (Pxx_corr U)
           (mat_mul_tr n m n (mat_mul n m m (kalman_gain ops n m pxy pyy) pyy) (kalman_gain ops n m pxy pyy))
      \<and> holds h' (P_m (predict pUkf))
           (map2 (-) Pm (mat_mul_tr n m n (mat_mul n m m (kalman_gain ops n m pxy pyy) pyy)
                           (kalman_gain ops n m pxy pyy)))"
proof -
  obtain aI where aI: "val (Iyy U) = Some aI" using holdsD [OF ho(1)] by blast
  obtain aY where aY: "val (Pyy U) = Some aY" using holdsD [OF ho(2)] by blast
  obtain aC where aC: "val (Pyy_cpy U) = Some aC" using holdsD [OF ho(3)] by blast
  obtain aX where aX: "val (Pxy U) = Some aX" using holdsD [OF ho(4)] by blast
  obtain aK where aK: "val (K_k U) = Some aK" using holdsD [OF ho(5)] by blast
  obtain ay where ay: "val (y_k (input pUkf)) = Some ay" using holdsD [OF ho(6)] by blast
  obtain am where am: "val (y_m (predict pUkf)) = Some am" using holdsD [OF ho(7)] by blast
  obtain ac where ac: "val (x_corr U) = Some ac" using holdsD [OF ho(8)] by blast
  obtain ax where ax: "val (x_m (predict pUkf)) = Some ax" using holdsD [OF ho(9)] by blast
  obtain aR where aR: "val (Pxx_corr U) = Some aR" using holdsD [OF ho(10)] by blast
  obtain aP where aP: "val (P_m (predict pUkf)) = Some aP" using holdsD [OF ho(11)] by blast
  note ad = aI aY aC aX aK ay am ac ax aR aP
  have ne: "distinct [aI, aY, aC, aX, aK, ay, am, ac, ax, aR, aP]"
    using di by (simp add: ad)
  have ne': "distinct (rev [aI, aY, aC, aX, aK, ay, am, ac, ax, aR, aP])"
    using ne by (simp only: distinct_rev)
  note nes = ne [simplified] ne' [simplified]
  note shs = sh [unfolded shape_def]
  have ne_sz: "nelem (Iyy U) = m * m" "nelem (Pyy U) = m * m" "nelem (Pyy_cpy U) = m * m"
    "nelem (Pxy U) = n * m" "nelem (K_k U) = n * m" "nelem (y_k (input pUkf)) = m"
    "nelem (y_m (predict pUkf)) = m" "nelem (x_corr U) = n" "nelem (x_m (predict pUkf)) = n"
    "nelem (Pxx_corr U) = n * n" "nelem (P_m (predict pUkf)) = n * n"
    using shs by (simp_all add: nelem_def n_def m_def)
  have len0: "length y = m" "length ym = m" "length xm = n" "length Pm = n * n"
    "length pyy = m * m" "length pxy = n * m"
    using ho(2,4,6,7,9,11) ne_sz by (auto simp: holds_def ad)
  define I1 where "I1 = mat_identity m"
  have len1: "length I1 = m * m" by (simp add: I1_def)
  note len = len0 len1
  define C1 where "C1 = fst (snd (inv_op ops m pyy I1))"
  define V where "V = snd (snd (inv_op ops m pyy I1))"
  define K where "K = mat_mul n m m pxy V"
  define innov where "innov = map2 (-) y ym"
  define corr where "corr = mat_mul n m 1 K innov"
  define KP where "KP = mat_mul n m m K pyy"
  define KPK where "KPK = mat_mul_tr n m n KP K"
  define h1 where "h1 = h(aI \<mapsto> I1)"
  define h2 where "h2 = h1(aC \<mapsto> pyy)"
  define h3 where "h3 = h2(aC \<mapsto> C1, aI \<mapsto> V)"
  define h4 where "h4 = h3(aK \<mapsto> K)"
  define h5 where "h5 = h4(ay \<mapsto> innov)"
  define h6 where "h6 = h5(ac \<mapsto> corr)"
  define h7 where "h7 = h6(ax \<mapsto> map2 (+) xm corr)"
  define h8 where "h8 = h7(aX \<mapsto> KP)"
  define h9 where "h9 = h8(aR \<mapsto> KPK)"
  define h10 where "h10 = h9(aP \<mapsto> map2 (-) Pm KPK)"
  note hs = h1_def h2_def h3_def h4_def h5_def h6_def h7_def h8_def h9_def h10_def
  note ss = holds_upd ad nes ne_sz ho len I1_def [symmetric]
  have s1: "mtx_identity h (Iyy U) = Inr (MTX_OPERATION_OK, h1)"
    using mtx_identity_holds [OF ho(1) aI] shs by (simp add: h1_def I1_def m_def)
  have s2: "mtx_cpy h1 (Pyy_cpy U) (Pyy U) = Inr (MTX_OPERATION_OK, h2)"
    unfolding h2_def
    by (rule mtx_cpy_holds [where xs = C0]) (simp_all add: hs ss same_shape_def shs)
  have iv': "length C1 = m * m" "length V = m * m"
    using iv by (simp_all add: C1_def V_def I1_def)
  have s3: "mtx_inv ops h2 (Pyy_cpy U) (Iyy U) = Inr (fst (inv_op ops m pyy I1), h3)"
    using mtx_inv_holds [of h2 "Pyy_cpy U" pyy aC "Iyy U" I1 aI ops] iv' nes
    by (simp add: hs ss same_shape_def shs C1_def V_def m_def [symmetric])
  have s4: "mtx_mul h3 (Pxy U) (Iyy U) (K_k U) = Inr (MTX_OPERATION_OK, h4)"
    using mtx_mul_holds [of h3 "Pxy U" pxy "Iyy U" V "K_k U" K0 aK] iv'
    by (simp add: hs ss shs K_def n_def [symmetric] m_def [symmetric])
  have s5: "mtx_sub h4 (y_k (input pUkf)) (y_m (predict pUkf)) = Inr (MTX_OPERATION_OK, h5)"
    using mtx_sub_holds [of h4 "y_k (input pUkf)" y ay "y_m (predict pUkf)" ym] iv'
    by (simp add: hs ss shs same_shape_def innov_def)
  have s6: "mtx_mul h5 (K_k U) (y_k (input pUkf)) (x_corr U) = Inr (MTX_OPERATION_OK, h6)"
    using mtx_mul_holds [of h5 "K_k U" K "y_k (input pUkf)" innov "x_corr U" xc0 ac] iv'
    by (simp add: hs ss shs K_def innov_def corr_def n_def [symmetric] m_def [symmetric])
  have s7: "mtx_add h6 (x_m (predict pUkf)) (x_corr U) = Inr (MTX_OPERATION_OK, h7)"
    using mtx_add_holds [of h6 "x_m (predict pUkf)" xm ax "x_corr U" corr] iv'
    by (simp add: hs ss shs same_shape_def K_def innov_def corr_def)
  have s8: "mtx_mul h7 (K_k U) (Pyy U) (Pxy U) = Inr (MTX_OPERATION_OK, h8)"
    using mtx_mul_holds [of h7 "K_k U" K "Pyy U" pyy "Pxy U" pxy aX] iv'
    by (simp add: hs ss shs K_def KP_def n_def [symmetric] m_def [symmetric])
  have s9: "mtx_mul_src2tr h8 (Pxy U) (K_k U) (Pxx_corr U) = Inr (MTX_OPERATION_OK, h9)"
    using mtx_mul_src2tr_holds [of h8 "Pxy U" KP "K_k U" K "Pxx_corr U" Pc0 aR] iv'
    by (simp add: hs ss shs K_def KP_def KPK_def n_def [symmetric] m_def [symmetric])
  have s10: "mtx_sub h9 (P_m (predict pUkf)) (Pxx_corr U) = Inr (MTX_OPERATION_OK, h10)"
    using mtx_sub_holds [of h9 "P_m (predict pUkf)" Pm aP "Pxx_corr U" KPK] iv'
    by (simp add: hs ss shs same_shape_def K_def KP_def KPK_def)
  have run: "ukf_meas_update ops pUkf h = Inr h10"
    using s1 s2 s3 s4 s5 s6 s7 s8 s9 s10 by (simp add: ukf_meas_update_def U_def [symmetric] Let_def)
  have Kg: "kalman_gain ops n m pxy pyy = K"
    by (simp add: kalman_gain_def K_def V_def I1_def)
  have "holds h10 (Pyy U) pyy" "holds h10 (K_k U) K" "holds h10 (y_k (input pUkf)) innov"
    "holds h10 (x_corr U) corr" "holds h10 (x_m (predict pUkf)) (map2 (+) xm corr)"
    "holds h10 (Pxy U) KP" "holds h10 (Pxx_corr U) KPK"
    "holds h10 (P_m (predict pUkf)) (map2 (-) Pm KPK)"
    using iv' by (simp_all add: hs ss K_def KP_def KPK_def innov_def corr_def)
  with run show ?thesis
    unfolding Kg by (auto simp: innov_def corr_def KP_def KPK_def)
qed

lemmas upd_defs = holds_def shape_def nelem_def kalman_gain_def ops1_def inv1_def
  mat_identity_def mat_mul_def mat_mul_tr_def

text \<open>
  C2. Let the matrices of the update have the shapes that \<open>xl\<close> states and \<open>yl\<close> outputs
  imply, each in a buffer of its own, and let the inversion return contents of the right
  size. Then \<open>ukf_meas_update\<close> runs through and leaves \<open>Pyy\<close> as it was (the copy is
  inverted, against the identity), the gain \<open>K = Pxy \<cdot> inv(Pyy)\<close>, the innovation
  \<open>y - y_m\<close> in the buffer of the measurement, the posterior state
  \<open>x = x_m + K \<cdot> (y - y_m)\<close>, the product \<open>K \<cdot> Pyy\<close> in \<open>Pxy\<close>, and the posterior covariance
  \<open>Pxx = P_m - (K \<cdot> Pyy) \<cdot> K\<^sup>T\<close>. The posterior \<open>x\<close> and \<open>Pxx\<close> are the matrices \<open>x_m\<close> and
  \<open>P_m\<close>, as \<open>ukf_init\<close> wires them.
\<close>

theorem ukf_meas_update_computes:
  fixes pUkf :: tUKF and xl yl :: "8 word"
  defines "U \<equiv> update pUkf" and "n \<equiv> unat xl" and "m \<equiv> unat yl"
  assumes "shape (Iyy U) yl yl" "shape (Pyy U) yl yl" "shape (Pyy_cpy U) yl yl"
      "shape (Pxy U) xl yl" "shape (K_k U) xl yl"
      "shape (y_k (input pUkf)) yl 1" "shape (y_m (predict pUkf)) yl 1"
      "shape (x_corr U) xl 1" "shape (x_m (predict pUkf)) xl 1"
      "shape (Pxx_corr U) xl xl" "shape (P_m (predict pUkf)) xl xl"
    and "holds h (Iyy U) I0" "holds h (Pyy U) pyy" "holds h (Pyy_cpy U) C0"
      "holds h (Pxy U) pxy" "holds h (K_k U) K0"
      "holds h (y_k (input pUkf)) y" "holds h (y_m (predict pUkf)) ym"
      "holds h (x_corr U) xc0" "holds h (x_m (predict pUkf)) xm"
      "holds h (Pxx_corr U) Pc0" "holds h (P_m (predict pUkf)) Pm"
    and "distinct [val (Iyy U), val (Pyy U), val (Pyy_cpy U), val (Pxy U), val (K_k U),
      val (y_k (input pUkf)), val (y_m (predict pUkf)), val (x_corr U), val (x_m (predict pUkf)),
      val (Pxx_corr U), val (P_m (predict pUkf))]"
    and "length (fst (snd (inv_op ops m pyy (mat_identity m)))) = m * m"
      "length (snd (snd (inv_op ops m pyy (mat_identity m)))) = m * m"
    and "x_k U = x_m (predict pUkf)" and "Pxx U = P_m (predict pUkf)"
  shows "\<exists>h'. ukf_meas_update ops pUkf h = Inr h'
      \<and> holds h' (Pyy U) pyy
      \<and> holds h' (K_k U) (kalman_gain ops n m pxy pyy)
      \<and> holds h' (y_k (input pUkf)) (map2 (-) y ym)
      \<and> holds h' (x_k U) (map2 (+) xm (mat_mul n m 1 (kalman_gain ops n m pxy pyy) (map2 (-) y ym)))
      \<and> holds h' (Pxy U) (mat_mul n m m (kalman_gain ops n m pxy pyy) pyy)
      \<and> holds h' (Pxx U)
           (map2 (-) Pm (mat_mul_tr n m n (mat_mul n m m (kalman_gain ops n m pxy pyy) pyy)
                           (kalman_gain ops n m pxy pyy)))"
  using ukf_meas_update_result [of pUkf yl xl h I0 pyy C0 pxy K0 y ym xc0 xm Pc0 Pm ops] assms
  by (simp only:) blast

theorem ukf_meas_update_computes_witness:
  "\<exists>h'. ukf_meas_update ops1 (ukf1 1 [None] [None]) (fmem_upd 6) = Inr h'
      \<and> holds h' (Pyy (update (ukf1 1 [None] [None]))) [2]
      \<and> holds h' (K_k (update (ukf1 1 [None] [None]))) [1]
      \<and> holds h' (y_k (input (ukf1 1 [None] [None]))) [2]
      \<and> holds h' (x_k (update (ukf1 1 [None] [None]))) [7]
      \<and> holds h' (Pxy (update (ukf1 1 [None] [None]))) [2]
      \<and> holds h' (Pxx (update (ukf1 1 [None] [None]))) [2]"
  using ukf_meas_update_computes [of "ukf1 1 [None] [None]" 1 1 "fmem_upd 6"
      "[0]" "[2]" "[0]" "[2]" "[0]" "[6]" "[4]" "[0]" "[5]" "[0]" "[4]" ops1]
  by (simp add: upd_defs fmem_upd_def ex_defs)

text \<open>
  C8. The claim adds to "the posterior state equals the predicted mean" that the posterior
  covariance equals the predicted covariance. The covariance update does not depend on
  the measurement: with predicted covariance 4, \<open>Pyy = 2\<close>, \<open>Pxy = 2\<close> and a measurement
  equal to the predicted output, the posterior covariance is 2.
\<close>

theorem ukf_meas_update_covariance_counterexample:
  "holds (fmem_upd 4) (y_k (input (ukf1 1 [None] [None]))) [4]
   \<and> holds (fmem_upd 4) (y_m (predict (ukf1 1 [None] [None]))) [4]
   \<and> holds (fmem_upd 4) (P_m (predict (ukf1 1 [None] [None]))) [4]
   \<and> (\<exists>h'. ukf_meas_update ops1 (ukf1 1 [None] [None]) (fmem_upd 4) = Inr h'
         \<and> holds h' (Pxx (update (ukf1 1 [None] [None]))) [2]
         \<and> \<not> holds h' (Pxx (update (ukf1 1 [None] [None]))) [4])"
  by (simp add: ukf_meas_update_def mtx_identity_def mtx_cpy_def mtx_inv_def mtx_mul_def mtx_sub_def
      mtx_add_def mtx_mul_src2tr_def same_shape_def Let_def upd_defs fmem_upd_def ex_defs mem_defs)

text \<open>
  C8, amended. If the measurement equals the predicted output \<open>y_m\<close>, the correction
  \<open>K \<cdot> (y - y_m)\<close> is the zero vector and the posterior state is the predicted mean
  \<open>x_m\<close>; the posterior covariance is \<open>P_m - (K \<cdot> Pyy) \<cdot> K\<^sup>T\<close>, as for any measurement.
\<close>

theorem ukf_meas_update_zero_innovation:
  fixes pUkf :: tUKF and xl yl :: "8 word"
  defines "U \<equiv> update pUkf" and "n \<equiv> unat xl" and "m \<equiv> unat yl"
  assumes sh: "shape (Iyy U) yl yl" "shape (Pyy U) yl yl" "shape (Pyy_cpy U) yl yl"
      "shape (Pxy U) xl yl" "shape (K_k U) xl yl"
      "shape (y_k (input pUkf)) yl 1" "shape (y_m (predict pUkf)) yl 1"
      "shape (x_corr U) xl 1" "shape (x_m (predict pUkf)) xl 1"
      "shape (Pxx_corr U) xl xl" "shape (P_m (predict pUkf)) xl xl"
    and ho: "holds h (Iyy U) I0" "holds h (Pyy U) pyy" "holds h (Pyy_cpy U) C0"
      "holds h (Pxy U) pxy" "holds h (K_k U) K0"
      "holds h (y_k (input pUkf)) ym" "holds h (y_m (predict pUkf)) ym"
      "holds h (x_corr U) xc0" "holds h (x_m (predict pUkf)) xm"
      "holds h (Pxx_corr U) Pc0" "holds h (P_m (predict pUkf)) Pm"
    and di: "distinct [val (Iyy U), val (Pyy U), val (Pyy_cpy U), val (Pxy U), val (K_k U),
      val (y_k (input pUkf)), val (y_m (predict pUkf)), val (x_corr U), val (x_m (predict pUkf)),
      val (Pxx_corr U), val (P_m (predict pUkf))]"
    and iv: "length (fst (snd (inv_op ops m pyy (mat_identity m)))) = m * m"
      "length (snd (snd (inv_op ops m pyy (mat_identity m)))) = m * m"
    and wx: "x_k U = x_m (predict pUkf)" and wp: "Pxx U = P_m (predict pUkf)"
  shows "\<exists>h'. ukf_meas_update ops pUkf h = Inr h'
      \<and> holds h' (x_corr U) (replicate n 0)
      \<and> holds h' (x_k U) xm
      \<and> holds h' (Pxx U)
           (map2 (-) Pm (mat_mul_tr n m n (mat_mul n m m (kalman_gain ops n m pxy pyy) pyy)
                           (kalman_gain ops n m pxy pyy)))"
proof -
  have ly: "length ym = m"
    using sh(7) ho(7) by (auto simp: holds_def shape_def nelem_def m_def split: option.splits)
  have lx: "length xm = n"
    using sh(9) ho(9) by (auto simp: holds_def shape_def nelem_def n_def split: option.splits)
  have z: "mat_mul n m 1 (kalman_gain ops n m pxy pyy) (map2 (-) ym ym) = replicate n 0"
    using mat_mul_zero_vector [of n m "kalman_gain ops n m pxy pyy"] by (simp add: map2_minus_self ly)
  have p: "map2 (+) xm (replicate n 0) = xm"
    using map2_plus_zeros [of xm] by (simp add: lx)
  note r = ukf_meas_update_result [OF sh [unfolded U_def] ho [unfolded U_def] di [unfolded U_def]
      iv [unfolded m_def], folded U_def n_def m_def]
  from r obtain h' where "ukf_meas_update ops pUkf h = Inr h'"
    and "holds h' (x_corr U) (mat_mul n m 1 (kalman_gain ops n m pxy pyy) (map2 (-) ym ym))"
    and "holds h' (x_m (predict pUkf))
           (map2 (+) xm (mat_mul n m 1 (kalman_gain ops n m pxy pyy) (map2 (-) ym ym)))"
    and "holds h' (P_m (predict pUkf))
           (map2 (-) Pm (mat_mul_tr n m n (mat_mul n m m (kalman_gain ops n m pxy pyy) pyy)
                           (kalman_gain ops n m pxy pyy)))"
    by blast
  then show ?thesis
    unfolding z p wx wp by blast
qed

theorem ukf_meas_update_zero_innovation_witness:
  "\<exists>h'. ukf_meas_update ops1 (ukf1 1 [None] [None]) (fmem_upd 4) = Inr h'
      \<and> holds h' (x_corr (update (ukf1 1 [None] [None]))) [0]
      \<and> holds h' (x_k (update (ukf1 1 [None] [None]))) [5]
      \<and> holds h' (Pxx (update (ukf1 1 [None] [None]))) [2]"
  using ukf_meas_update_zero_innovation [of "ukf1 1 [None] [None]" 1 1 "fmem_upd 4"
      "[0]" "[2]" "[0]" "[2]" "[0]" "[4]" "[0]" "[5]" "[0]" "[4]" ops1]
  by (simp add: upd_defs fmem_upd_def ex_defs)

section \<open>The previous input\<close>

text \<open>
  C9. The claim is that the prediction callbacks of a step receive, as previous input, the
  input of the preceding cycle. \<open>ukf_init\<close> wires the previous-input slot \<open>u_p\<close> to the
  buffer of the current input \<^verbatim>\<open>u_system_input\<close> (the buffer \<^verbatim>\<open>u_prev_system_input\<close>
  stays in a comment) for every configuration, so the copy at the end of \<open>ukf_step\<close>
  copies the input onto itself. In the run below the input is 10 in the first cycle and the caller writes 20
  before the second step; the prediction callback records the previous input it is given
  in the sigma points (buffer 9). It is given 10 in the first step, where the buffer of
  the previous input holds 0, and 20, the current input, in the second.
\<close>

theorem ukf_step_prev_input_is_current:
  "(\<forall>m P. u_p (prev (init_wiring m P)) = u_system_input m
           \<and> u_k (input (init_wiring m P)) = u_system_input m)
   \<and> ukf_init (cfg1 1 [Some pred_prev_input] [Some obs_state]) bmem1 (fmem1 4)
     = Inr (0, ukf1 1 [Some pred_prev_input] [Some obs_state], bmem1, (fmem1 4)(17 \<mapsto> [4], 3 \<mapsto> [5]))
   \<and> (\<exists>h1. ukf_step ops1 (ukf1 1 [Some pred_prev_input] [Some obs_state]) bmem1
              ((fmem1 4)(17 \<mapsto> [4], 3 \<mapsto> [5])) = Inr h1
        \<and> h1 9 = Some [10, 10, 10] \<and> h1 8 = Some [0] \<and> h1 7 = Some [10]
        \<and> (\<exists>h2. wr h1 (val (u_system_input (cfg1 1 [Some pred_prev_input] [Some obs_state]))) 0 20 = Inr h2
             \<and> (\<exists>h3. ukf_step ops1 (ukf1 1 [Some pred_prev_input] [Some obs_state]) bmem1 h2 = Inr h3
                  \<and> h3 9 = Some [20, 20, 20])))"
proof -
  have "\<forall>m P. u_p (prev (init_wiring m P)) = u_system_input m
           \<and> u_k (input (init_wiring m P)) = u_system_input m"
    by (simp add: init_wiring_def)
  moreover have "ukf_init (cfg1 1 [Some pred_prev_input] [Some obs_state]) bmem1 (fmem1 4)
     = Inr (0, ukf1 1 [Some pred_prev_input] [Some obs_state], bmem1, (fmem1 4)(17 \<mapsto> [4], 3 \<mapsto> [5]))"
    by (simp add: init_defs ex_defs mem_defs Let_def fun_eq_iff)
  moreover have "\<exists>h1. ukf_step ops1 (ukf1 1 [Some pred_prev_input] [Some obs_state]) bmem1
              ((fmem1 4)(17 \<mapsto> [4], 3 \<mapsto> [5])) = Inr h1
        \<and> h1 9 = Some [10, 10, 10] \<and> h1 8 = Some [0] \<and> h1 7 = Some [10]
        \<and> (\<exists>h2. wr h1 (val (u_system_input (cfg1 1 [Some pred_prev_input] [Some obs_state]))) 0 20 = Inr h2
             \<and> (\<exists>h3. ukf_step ops1 (ukf1 1 [Some pred_prev_input] [Some obs_state]) bmem1 h2 = Inr h3
                  \<and> h3 9 = Some [20, 20, 20]))"
    by (simp add: step_defs pred_prev_input_def obs_state_def ex_defs mem_defs Let_def)
  ultimately show ?thesis by blast
qed

end
